theory Spec2Isabelle
  imports
    Complex_Main
    "HOL-Library.AList"
    "HOL-Library.Char_ord"
    "HOL-Library.List_Lexorder"
begin

section \<open>CVAT to DeepLabCut conversion pipeline\<close>

text \<open>
  A shallow embedding of \<^verbatim>\<open>cvat_to_deeplabcut_pipeline.py\<close> (class
  \<^verbatim>\<open>CVATToDeepLabCutPipeline\<close>) and of the input handling of
  \<^verbatim>\<open>cvat_dlc_gui.py\<close>.

  Conventions of the embedding:
  \<^item> Python dictionaries are association lists kept in insertion order
    (\<open>AList.update\<close> replaces in place or appends, as a \<^verbatim>\<open>dict\<close> does);
  \<^item> Python floats are read as real numbers: no statement below depends on rounding;
  \<^item> Python strings are \<open>string\<close>, ordered by code point;
  \<^item> everything outside the program (the XML parser, the video backend, the
    console, the file system, the clock, the converter library) is a field of the
    record \<open>world\<close>, and every call into it is a branch on that field;
  \<^item> what a stage does to the outside is the list of \<open>effect\<close>s it returns, in
    program order.  The error and warning lines that the stage methods print are kept,
    without their pictograms and interpolated values; their progress lines and the
    lines with which \<^verbatim>\<open>run_pipeline\<close> and the front end report a stage's failure
    are left out.
\<close>

subsection \<open>The filename rule \<^verbatim>\<open>f"frame_{n:04d}.png"\<close>\<close>

definition digit_char :: "nat \<Rightarrow> char" where
  "digit_char d = ''0123456789'' ! d"

function dec_nat :: "nat \<Rightarrow> string" where
  "dec_nat n = (if n < 10 then [digit_char n] else dec_nat (n div 10) @ [digit_char (n mod 10)])"
  by pat_completeness auto
termination
  by (relation "measure (\<lambda>n. n)") auto

declare dec_nat.simps [simp del]

definition zero_pad :: "nat \<Rightarrow> string \<Rightarrow> string" where
  "zero_pad w s = replicate (w - length s) (CHR ''0'') @ s"

text \<open>Python's format specification \<^verbatim>\<open>04d\<close>: sign-aware zero padding to width 4.\<close>

definition fmt_04d :: "int \<Rightarrow> string" where
  "fmt_04d n =
     (if n < 0 then CHR ''-'' # zero_pad 3 (dec_nat (nat (- n)))
      else zero_pad 4 (dec_nat (nat n)))"

definition frame_filename :: "int \<Rightarrow> string" where
  "frame_filename n = ''frame_'' @ fmt_04d n @ ''.png''"

text \<open>Reading a formatted number back, used to show that the rule is injective.\<close>

definition digit_val :: "char \<Rightarrow> nat" where
  "digit_val c = of_char c - 48"

definition dec_val :: "string \<Rightarrow> nat" where
  "dec_val s = foldl (\<lambda>a c. 10 * a + digit_val c) 0 s"

definition read_04d :: "string \<Rightarrow> int" where
  "read_04d s =
     (case s of
        [] \<Rightarrow> 0
      | c # cs \<Rightarrow> if c = CHR ''-'' then - int (dec_val cs) else int (dec_val s))"

subsection \<open>The annotation export\<close>

text \<open>
  The document as \<^verbatim>\<open>xml.etree\<close> hands it over: \<^verbatim>\<open>findall('track')\<close>, and for each
  track \<^verbatim>\<open>findall('box')\<close> and \<^verbatim>\<open>findall('points')\<close>, each in document order.
  Numeric attributes are held converted.  The \<^verbatim>\<open>points\<close> attribute is held as the list
  of its comma-separated components: the empty list for a missing or empty attribute,
  one element for a string without a comma.  The export is taken to be one whose
  attributes convert: a frame number that \<^verbatim>\<open>int\<close> rejects or a component that
  \<^verbatim>\<open>float\<close> rejects raises out of \<^verbatim>\<open>parse_cvat_xml\<close> and is not part of the model.
\<close>

type_synonym coord = "real \<times> real"
type_synonym frame_annotation = "(string \<times> coord) list"
type_synonym annotation_index = "(int \<times> frame_annotation) list"

record box =
  box_frame :: int
  xtl :: real
  ytl :: real
  xbr :: real
  ybr :: real

record points =
  points_frame :: int
  points_coords :: "real list"

record track =
  track_id :: string
  label :: string
  boxes :: "box list"
  pointss :: "points list"

record job =
  job_size :: "int option"
  job_start_frame :: "int option"
  job_stop_frame :: "int option"

record document =
  meta_job :: "job option"
  tracks :: "track list"

datatype xml_source = XmlParseError | XmlFileNotFound | XmlDocument document

subsection \<open>Pipeline state\<close>

record video_info =
  total_frames :: "int option"
  start_frame :: "int option"
  stop_frame :: "int option"
  fps :: "real option"
  width :: "int option"
  height :: "int option"
  video_file :: "string option"

record pipeline =
  annotations :: annotation_index
  video_info :: video_info
  bodyparts :: "string list"
  frame_selection :: string
  frame_range :: "int \<times> int"

definition empty_video_info :: video_info where
  "empty_video_info =
     \<lparr>total_frames = None, start_frame = None, stop_frame = None, fps = None,
      width = None, height = None, video_file = None\<rparr>"

text \<open>\<^verbatim>\<open>__init__\<close>\<close>

definition init_pipeline :: pipeline where
  "init_pipeline =
     \<lparr>annotations = [], video_info = empty_video_info, bodyparts = [],
      frame_selection = ''full'', frame_range = (0, - 1)\<rparr>"

subsection \<open>\<^verbatim>\<open>parse_cvat_xml\<close>\<close>

text \<open>\<^verbatim>\<open>if frame_num not in self.annotations: self.annotations[frame_num] = {}\<close>\<close>

definition ensure_frame :: "int \<Rightarrow> annotation_index \<Rightarrow> annotation_index" where
  "ensure_frame f ann = (if map_of ann f = None then ann @ [(f, [])] else ann)"

text \<open>\<^verbatim>\<open>self.annotations[frame_num][name] = (x, y)\<close>\<close>

definition set_keypoint :: "int \<Rightarrow> string \<Rightarrow> coord \<Rightarrow> annotation_index \<Rightarrow> annotation_index" where
  "set_keypoint f name xy ann = AList.map_entry f (AList.update name xy) ann"

definition process_box ::
  "string \<Rightarrow> box \<Rightarrow> annotation_index \<times> string set \<Rightarrow> annotation_index \<times> string set" where
  "process_box lbl b acc =
     (let frame_num = box_frame b;
          ann = ensure_frame frame_num (fst acc);
          center_x = (xtl b + xbr b) / 2;
          center_y = (ytl b + ybr b) / 2;
          bodypart_name = lbl @ ''_center''
      in (set_keypoint frame_num bodypart_name (center_x, center_y) ann,
          insert bodypart_name (snd acc)))"

definition process_point ::
  "string \<Rightarrow> points \<Rightarrow> annotation_index \<times> string set \<Rightarrow> annotation_index \<times> string set" where
  "process_point lbl p acc =
     (let frame_num = points_frame p;
          ann = ensure_frame frame_num (fst acc)
      in case points_coords p of
           x # y # _ \<Rightarrow> (set_keypoint frame_num lbl (x, y) ann, insert lbl (snd acc))
         | _ \<Rightarrow> (ann, snd acc))"

definition process_track ::
  "track \<Rightarrow> annotation_index \<times> string set \<Rightarrow> annotation_index \<times> string set" where
  "process_track t acc =
     foldl (\<lambda>a p. process_point (label t) p a)
       (foldl (\<lambda>a b. process_box (label t) b a) acc (boxes t))
       (pointss t)"

definition process_tracks :: "track list \<Rightarrow> annotation_index \<times> string set" where
  "process_tracks ts = foldl (\<lambda>a t. process_track t a) ([], {}) ts"

definition job_video_info :: "job \<Rightarrow> video_info" where
  "job_video_info j =
     empty_video_info
       \<lparr>total_frames := Some (case job_size j of Some n \<Rightarrow> n | None \<Rightarrow> 0),
        start_frame := Some (case job_start_frame j of Some n \<Rightarrow> n | None \<Rightarrow> 0),
        stop_frame := Some (case job_stop_frame j of Some n \<Rightarrow> n | None \<Rightarrow> 0)\<rparr>"

text \<open>
  The result is \<open>None\<close> where the method returns \<^verbatim>\<open>False\<close>, and the updated object
  where it returns \<^verbatim>\<open>True\<close>.
\<close>

definition parse_cvat_xml :: "xml_source \<Rightarrow> pipeline \<Rightarrow> pipeline option" where
  "parse_cvat_xml src self =
     (case src of
        XmlParseError \<Rightarrow> None
      | XmlFileNotFound \<Rightarrow> None
      | XmlDocument doc \<Rightarrow>
          (let self1 = (case meta_job doc of
                          None \<Rightarrow> self
                        | Some j \<Rightarrow> self\<lparr>video_info := job_video_info j\<rparr>);
               r = process_tracks (tracks doc)
           in Some (self1\<lparr>annotations := fst r, bodyparts := sorted_list_of_set (snd r)\<rparr>)))"


subsection \<open>The outside world and what a stage does to it\<close>

text \<open>
  \<open>CannotOpen\<close>: \<^verbatim>\<open>cap.isOpened()\<close> is false.  \<open>BackendError\<close>: the backend raises.
  \<open>Opened n f w h frames\<close>: the properties the backend reports
  (\<^verbatim>\<open>CAP_PROP_FRAME_COUNT\<close>, \<^verbatim>\<open>CAP_PROP_FPS\<close>, width, height) and the frames that
  successive \<^verbatim>\<open>cap.read()\<close> calls deliver before the first failing read.  The reported
  count and the number of frames delivered are independent data.
\<close>

datatype 'img capture =
  CannotOpen
| BackendError
| Opened (cap_frame_count: int) (cap_fps: real) (cap_width: int) (cap_height: int)
    (cap_frames: "'img list")

datatype import_result = Imported | ImportError | ImportOtherError

text \<open>\<^verbatim>\<open>subprocess.run\<close>: the return code, or an exception (a timeout, a missing interpreter).\<close>

datatype run_result = Exit int | RunRaises

text \<open>
  The converter library as a Python process meets it: whether \<^verbatim>\<open>import deeplabcut\<close>
  works, and whether a call of \<^verbatim>\<open>convertcsv2h5\<close> goes through (\<open>True\<close>) or raises
  (\<open>False\<close>) with \<^verbatim>\<open>input\<close> patched, with the batch-mode environment variables set,
  and with neither.
\<close>

record library =
  lib_import :: import_result
  lib_patched :: bool
  lib_env :: bool
  lib_direct :: bool

text \<open>
  What \<^verbatim>\<open>generate_h5_file\<close> meets: the library in the pipeline's own process, whether
  \<^verbatim>\<open>h5_converter.py\<close> lies beside the module, and the two child processes started with
  \<^verbatim>\<open>subprocess.run\<close>.  A child is \<open>None\<close> when \<^verbatim>\<open>subprocess.run\<close> itself raises (a
  timeout, a missing interpreter), and else the library as the child meets it.
  \<open>helper_sees_config\<close> is \<^verbatim>\<open>os.path.exists(config_path)\<close> in the helper.
\<close>

record converter =
  import_deeplabcut :: import_result
  convert_patched :: bool
  helper_exists :: bool
  helper_child :: "library option"
  helper_sees_config :: bool
  inline_child :: "library option"
  convert_env :: bool

text \<open>
  Library functions the program calls are fields too: \<^verbatim>\<open>int\<close> and \<^verbatim>\<open>str.strip\<close>,
  \<^verbatim>\<open>Path.stem\<close>, \<^verbatim>\<open>Path.name\<close>, \<^verbatim>\<open>Path.absolute\<close> and \<^verbatim>\<open>os.path.exists\<close>.
  \<open>console\<close> holds the lines that successive \<^verbatim>\<open>input()\<close> calls return; at its end
  \<^verbatim>\<open>input()\<close> raises \<^verbatim>\<open>EOFError\<close>.  \<open>writable p\<close> says that opening \<open>p\<close> for writing
  and writing to it succeed.  \<open>today\<close> is \<^verbatim>\<open>datetime.now().strftime("%b%d")\<close>.
  Creating a directory is taken to succeed.
\<close>

record 'img world =
  xml_parse :: xml_source
  capture :: "'img capture"
  console :: "string list"
  py_int :: "string \<Rightarrow> int option"
  py_strip :: "string \<Rightarrow> string"
  path_stem :: "string \<Rightarrow> string"
  path_name :: "string \<Rightarrow> string"
  path_absolute :: "string \<Rightarrow> string"
  path_exists :: "string \<Rightarrow> bool"
  writable :: "string \<Rightarrow> bool"
  copy_ok :: bool
  today :: string
  converter :: converter

datatype cell = Str string | Num real | NaN

datatype level = Error | Warning

record summary =
  sum_project_name :: string
  sum_scorer :: string
  sum_frame_selection :: string
  sum_frame_range :: "int \<times> int"
  sum_total_selected_frames :: int
  sum_valid_annotation_frames :: nat
  sum_keypoints :: "string list"

text \<open>
  \<open>ReadFrame\<close> is one successful \<^verbatim>\<open>cap.read()\<close>; \<open>WriteImage\<close> is \<^verbatim>\<open>cv2.imwrite\<close>;
  \<open>WriteTable\<close> is the rows handed to \<^verbatim>\<open>csv.writer\<close>, in order; \<open>WriteText\<close> is the
  concatenation of the \<^verbatim>\<open>f.write\<close> arguments; \<open>WriteSummary\<close> carries the values
  the summary is rendered from.
\<close>

datatype 'img effect =
  MakeDir string
| ReadFrame
| WriteImage string 'img
| WriteTable string "cell list list"
| WriteText string string
| CopyFile string string
| WriteSummary string summary
| Print level string

text \<open>A call returns a value or lets an exception escape.\<close>

datatype 'a outcome = Returns 'a | Raises string

definition pjoin :: "string \<Rightarrow> string \<Rightarrow> string" where
  "pjoin a b = a @ ''/'' @ b"

record args =
  xml_file :: string
  video_file_arg :: string
  output_dir :: string
  project_name :: string
  scorer :: string

subsection \<open>\<^verbatim>\<open>get_video_info\<close>\<close>

definition get_video_info ::
  "'img capture \<Rightarrow> string \<Rightarrow> pipeline \<Rightarrow> 'img effect list \<times> pipeline option" where
  "get_video_info cap vf self =
     (case cap of
        CannotOpen \<Rightarrow> ([Print Error ''Cannot open video file''], None)
      | BackendError \<Rightarrow> ([Print Error ''Failed to get video information''], None)
      | Opened n f w h frames \<Rightarrow>
          ([], Some (self\<lparr>video_info := (video_info self)
                 \<lparr>total_frames := Some n, fps := Some f, width := Some w,
                  height := Some h, video_file := Some vf\<rparr>\<rparr>)))"

subsection \<open>\<^verbatim>\<open>interactive_frame_selection\<close>\<close>

text \<open>
  The inner \<^verbatim>\<open>while True\<close> of option 2.  A line that \<^verbatim>\<open>int\<close> rejects raises
  \<^verbatim>\<open>ValueError\<close>, which is caught, and the loop starts over: when the start line is
  rejected the end line is not asked for.  \<open>None\<close> is \<^verbatim>\<open>EOFError\<close>.
\<close>

fun range_prompt :: "(string \<Rightarrow> int option) \<Rightarrow> int \<Rightarrow> string list \<Rightarrow> (int \<times> int) option" where
  "range_prompt to_int max_frame [] = None"
| "range_prompt to_int max_frame [a] = None"
| "range_prompt to_int max_frame (a # b # rest) =
     (case to_int a of
        None \<Rightarrow> range_prompt to_int max_frame (b # rest)
      | Some start_f \<Rightarrow>
          (case to_int b of
             None \<Rightarrow> range_prompt to_int max_frame rest
           | Some end_f \<Rightarrow>
               if 0 \<le> start_f \<and> start_f \<le> end_f \<and> end_f \<le> max_frame then Some (start_f, end_f)
               else range_prompt to_int max_frame rest))"

text \<open>
  The outer \<^verbatim>\<open>while True\<close>.  The choice is read first; \<^verbatim>\<open>frame_selection\<close> is assigned
  before \<^verbatim>\<open>video_info['total_frames']\<close> is looked up (\<^verbatim>\<open>KeyError\<close> when it is missing)
  and before the range is asked for, so the state at a raise already carries it.
  The result is the state the method leaves and how it ended.
\<close>

fun selection_prompt ::
  "(string \<Rightarrow> string) \<Rightarrow> (string \<Rightarrow> int option) \<Rightarrow> string list \<Rightarrow> pipeline \<Rightarrow>
   pipeline \<times> unit outcome" where
  "selection_prompt strip to_int [] self = (self, Raises ''EOFError'')"
| "selection_prompt strip to_int (line # rest) self =
     (if strip line = ''1'' then
        (case total_frames (video_info self) of
           None \<Rightarrow> (self\<lparr>frame_selection := ''full''\<rparr>, Raises ''KeyError'')
         | Some total_n \<Rightarrow>
             (self\<lparr>frame_selection := ''full'', frame_range := (0, total_n - 1)\<rparr>,
              Returns ()))
      else if strip line = ''2'' then
        (case total_frames (video_info self) of
           None \<Rightarrow> (self\<lparr>frame_selection := ''range''\<rparr>, Raises ''KeyError'')
         | Some total_n \<Rightarrow>
             (case range_prompt to_int (total_n - 1) rest of
                None \<Rightarrow> (self\<lparr>frame_selection := ''range''\<rparr>, Raises ''EOFError'')
              | Some r \<Rightarrow>
                  (self\<lparr>frame_selection := ''range'', frame_range := r\<rparr>, Returns ())))
      else selection_prompt strip to_int rest self)"

definition interactive_frame_selection :: "'img world \<Rightarrow> pipeline \<Rightarrow> pipeline \<times> unit outcome" where
  "interactive_frame_selection w self =
     selection_prompt (py_strip w) (py_int w) (console w) self"

subsection \<open>\<^verbatim>\<open>extract_frames\<close>\<close>

text \<open>
  The \<^verbatim>\<open>while True\<close> loop, with the variables \<^verbatim>\<open>frame_count\<close> and
  \<^verbatim>\<open>extracted_count\<close> of the source.  The list argument is what the capture still
  has to deliver: on the empty list \<^verbatim>\<open>ret\<close> is false.
\<close>

fun extract_loop ::
  "string \<Rightarrow> int \<Rightarrow> int \<Rightarrow> 'img list \<Rightarrow> int \<Rightarrow> nat \<Rightarrow> 'img effect list \<times> nat" where
  "extract_loop frames_dir start_f end_f [] frame_count extracted_count = ([], extracted_count)"
| "extract_loop frames_dir start_f end_f (frame # rest) frame_count extracted_count =
     (let inside = (start_f \<le> frame_count \<and> frame_count \<le> end_f);
          save = (if inside
                  then [WriteImage (pjoin frames_dir (frame_filename frame_count)) frame]
                  else []);
          extracted_count1 = (if inside then extracted_count + 1 else extracted_count);
          frame_count1 = frame_count + 1
      in if frame_count1 > end_f then (ReadFrame # save, extracted_count1)
         else (let r = extract_loop frames_dir start_f end_f rest frame_count1 extracted_count1
               in (ReadFrame # save @ fst r, snd r)))"

definition frames_dir :: "'img world \<Rightarrow> string \<Rightarrow> string \<Rightarrow> string" where
  "frames_dir w out vf = pjoin (pjoin out ''labeled-data'') (path_stem w vf)"

definition extract_frames ::
  "'img world \<Rightarrow> string \<Rightarrow> string \<Rightarrow> pipeline \<Rightarrow> 'img effect list \<times> bool" where
  "extract_frames w vf out self =
     (let dir = frames_dir w out vf
      in case capture w of
           CannotOpen \<Rightarrow> ([MakeDir dir, Print Error ''Cannot open video file''], False)
         | BackendError \<Rightarrow> ([MakeDir dir, Print Error ''Frame extraction failed''], False)
         | Opened n f wd h frames \<Rightarrow>
             (MakeDir dir #
                fst (extract_loop dir (fst (frame_range self)) (snd (frame_range self)) frames 0 0),
              True))"

subsection \<open>\<^verbatim>\<open>create_deeplabcut_csv\<close>\<close>

definition valid_frames :: "annotation_index \<Rightarrow> int \<times> int \<Rightarrow> int list" where
  "valid_frames ann r = filter (\<lambda>frame_num. fst r \<le> frame_num \<and> frame_num \<le> snd r) (sort (map fst ann))"

definition coordinate_cells :: "frame_annotation \<Rightarrow> string \<Rightarrow> cell list" where
  "coordinate_cells frame_annotations bodypart =
     (case map_of frame_annotations bodypart of
        Some xy \<Rightarrow> [Num (fst xy), Num (snd xy)]
      | None \<Rightarrow> [NaN, NaN])"

text \<open>
  \<^verbatim>\<open>self.annotations[frame_num]\<close> is only evaluated at keys of the dictionary; the
  \<open>None\<close> branch below is never taken in \<open>create_deeplabcut_csv\<close>.
\<close>

definition data_row :: "string \<Rightarrow> string list \<Rightarrow> annotation_index \<Rightarrow> int \<Rightarrow> cell list" where
  "data_row video_name bps ann frame_num =
     (let image_name = frame_filename frame_num;
          frame_annotations = (case map_of ann frame_num of Some fa \<Rightarrow> fa | None \<Rightarrow> [])
      in [Str ''labeled-data'', Str video_name, Str image_name] @
         concat (map (coordinate_cells frame_annotations) bps))"

definition header_rows :: "string \<Rightarrow> string list \<Rightarrow> cell list list" where
  "header_rows scorer_name bps =
     [[Str ''scorer'', Str [], Str []] @ replicate (length bps * 2) (Str scorer_name),
      [Str ''bodyparts'', Str [], Str []] @ concat (map (\<lambda>bp. [Str bp, Str bp]) bps),
      [Str ''coords'', Str [], Str []] @ concat (replicate (length bps) [Str ''x'', Str ''y''])]"

definition csv_path :: "'img world \<Rightarrow> string \<Rightarrow> string \<Rightarrow> string \<Rightarrow> string" where
  "csv_path w out vf scorer_name =
     pjoin (frames_dir w out vf) (''CollectedData_'' @ scorer_name @ ''.csv'')"

definition create_deeplabcut_csv ::
  "'img world \<Rightarrow> string \<Rightarrow> string \<Rightarrow> pipeline \<Rightarrow> 'img effect list \<times> bool outcome" where
  "create_deeplabcut_csv w out scorer_name self =
     (case video_file (video_info self) of
        None \<Rightarrow> ([], Raises ''KeyError'')
      | Some vf \<Rightarrow>
          (let video_name = path_stem w vf;
               dir = frames_dir w out vf;
               csv_file = csv_path w out vf scorer_name;
               frames = valid_frames (annotations self) (frame_range self)
           in if frames = [] then
                ([MakeDir dir, Print Error ''No annotation data found in frame range''],
                 Returns False)
              else if writable w csv_file then
                ([MakeDir dir,
                  WriteTable csv_file
                    (header_rows scorer_name (bodyparts self) @
                     map (data_row video_name (bodyparts self) (annotations self)) frames)],
                 Returns True)
              else ([MakeDir dir, Print Error ''CSV file creation failed''], Returns False)))"

subsection \<open>\<^verbatim>\<open>create_deeplabcut_config\<close>\<close>

definition nl :: string where
  "nl = [CHR 0x0A]"

text \<open>
  The text handed to \<^verbatim>\<open>f.write\<close>, call by call.  The values interpolated from
  \<^verbatim>\<open>config_data\<close> that do not depend on the arguments are written as Python prints them.
\<close>

definition config_text ::
  "string \<Rightarrow> string \<Rightarrow> string \<Rightarrow> string \<Rightarrow> string \<Rightarrow> string list \<Rightarrow> string" where
  "config_text task scorer_name current_date project_path video_filename bps =
     concat
      [''# Project definitions (do not edit)'' @ nl,
       ''Task: '' @ task @ nl,
       ''scorer: '' @ scorer_name @ nl,
       ''date: '' @ current_date @ nl,
       ''multianimalproject:'' @ nl,
       ''identity:'' @ nl @ nl @ nl,
       ''# Project path (change when moving around)'' @ nl,
       ''project_path: '' @ project_path @ nl @ nl @ nl,
       ''# Default DeepLabCut engine to use for shuffle creation (either pytorch or tensorflow)'' @ nl,
       ''engine: pytorch'' @ nl @ nl @ nl,
       ''# Annotation data set configuration (and individual video cropping parameters)'' @ nl,
       ''video_sets:'' @ nl,
       ''  '' @ video_filename @ '':'' @ nl,
       ''    crop: false'' @ nl @ nl,
       ''# Other settings'' @ nl,
       ''bodyparts:'' @ nl,
       concat (map (\<lambda>bodypart. ''- '' @ bodypart @ nl) bps),
       nl @ nl @ nl,
       ''start: 0'' @ nl,
       ''stop: 1'' @ nl,
       ''numframes2pick: 20'' @ nl @ nl @ nl,
       ''# Plotting configuration'' @ nl,
       ''skeleton:'' @ nl,
       ''  # Queen bee skeleton'' @ nl,
       ''  - [Q_Head, Q_Neck]'' @ nl,
       ''  - [Q_Neck, Q_Tail]'' @ nl,
       ''  - [Q_Antenna_L1, Q_Antenna_L2]'' @ nl,
       ''  - [Q_Antenna_L2, Q_Antenna_L3]'' @ nl,
       ''  - [Q_Antenna_L3, Q_Head]'' @ nl,
       ''  - [Q_Antenna_R1, Q_Antenna_R2]'' @ nl,
       ''  - [Q_Antenna_R2, Q_Antenna_R3]'' @ nl,
       ''  - [Q_Antenna_R3, Q_Head]'' @ nl,
       nl,
       ''  # Other bee skeleton (template individual)'' @ nl,
       ''  - [O_Head, O_Neck]'' @ nl,
       ''  - [O_Neck, O_Tail]'' @ nl,
       ''  - [O_Antenna_L1, O_Antenna_L2]'' @ nl,
       ''  - [O_Antenna_L2, O_Antenna_L3]'' @ nl,
       ''  - [O_Antenna_L3, O_Head]'' @ nl,
       ''  - [O_Antenna_R1, O_Antenna_R2]'' @ nl,
       ''  - [O_Antenna_R2, O_Antenna_R3]'' @ nl,
       ''  - [O_Antenna_R3, O_Head]'' @ nl,
       ''skeleton_color: blue'' @ nl,
       ''pcutoff: 0.4'' @ nl,
       ''dotsize: 12'' @ nl,
       ''alphavalue: 0.7'' @ nl,
       ''colormap: plasma'' @ nl @ nl @ nl,
       ''# Training,Evaluation and Analysis configuration'' @ nl,
       ''TrainingFraction: [0.95]'' @ nl,
       ''iteration: 0'' @ nl,
       ''default_net_type: resnet_50'' @ nl,
       ''default_augmenter: imgaug'' @ nl,
       ''snapshotindex: -1'' @ nl,
       ''detector_snapshotindex: -1'' @ nl,
       ''batch_size: 8'' @ nl,
       ''detector_batch_size: 1'' @ nl @ nl @ nl,
       ''# Cropping Parameters (for analysis and outlier frame detection)'' @ nl,
       ''cropping:'' @ nl,
       ''#if cropping is true for analysis, then set the values here:'' @ nl,
       ''x1:'' @ nl,
       ''x2:'' @ nl,
       ''y1:'' @ nl,
       ''y2:'' @ nl @ nl @ nl,
       ''# Refinement configuration (parameters from annotation dataset configuration also relevant in this stage)'' @ nl,
       ''corner2move2:'' @ nl,
       ''move2corner:'' @ nl @ nl @ nl,
       ''# Conversion tables to fine-tune SuperAnimal weights'' @ nl,
       ''SuperAnimalConversionTables:'' @ nl,
       ''project_name: '' @ task @ nl]"

definition config_path :: "string \<Rightarrow> string" where
  "config_path out = pjoin out ''config.yaml''"

definition create_deeplabcut_config ::
  "'img world \<Rightarrow> string \<Rightarrow> string \<Rightarrow> string \<Rightarrow> pipeline \<Rightarrow> 'img effect list \<times> bool outcome" where
  "create_deeplabcut_config w out project scorer_name self =
     (let config_file = config_path out;
          current_date = today w;
          project_path = path_absolute w out
      in case video_file (video_info self) of
           None \<Rightarrow> ([], Raises ''KeyError'')
         | Some vf \<Rightarrow>
             if writable w config_file then
               ([WriteText config_file
                   (config_text project scorer_name current_date project_path
                      (path_name w vf) (bodyparts self))],
                Returns True)
             else ([Print Error ''Configuration file creation failed''], Returns False))"

subsection \<open>\<^verbatim>\<open>copy_video_to_project\<close>\<close>

definition copy_video_to_project ::
  "'img world \<Rightarrow> string \<Rightarrow> string \<Rightarrow> 'img effect list \<times> bool" where
  "copy_video_to_project w vf out =
     (let videos_dir = pjoin out ''videos'';
          destination = pjoin videos_dir (path_name w vf)
      in if copy_ok w then ([MakeDir videos_dir, CopyFile vf destination], True)
         else ([MakeDir videos_dir, Print Error ''Video file copying failed''], False))"

subsection \<open>\<^verbatim>\<open>h5_converter.py\<close>\<close>

text \<open>
  \<^verbatim>\<open>convert_csv_to_h5_auto\<close>: up to three calls of \<^verbatim>\<open>convertcsv2h5\<close>; \<^verbatim>\<open>False\<close> when the
  import fails or the third call raises.
\<close>

definition convert_csv_to_h5_auto :: "library \<Rightarrow> bool" where
  "convert_csv_to_h5_auto l =
     (case lib_import l of
        Imported \<Rightarrow>
          if lib_patched l then True
          else if lib_env l then True
          else if lib_direct l then True
          else False
      | ImportError \<Rightarrow> False
      | ImportOtherError \<Rightarrow> False)"

text \<open>
  \<^verbatim>\<open>main\<close>, as the exit status of the script.  The pipeline passes the two arguments
  the script asks for.
\<close>

definition h5_converter_main :: "bool \<Rightarrow> library \<Rightarrow> int" where
  "h5_converter_main config_exists l =
     (if \<not> config_exists then 1
      else if convert_csv_to_h5_auto l then 0
      else 1)"

subsection \<open>\<^verbatim>\<open>generate_h5_file\<close>\<close>

text \<open>
  The inline script of the fallback, as its exit status.  The import stands outside
  the script's \<^verbatim>\<open>try\<close>, so a failing import ends the child with status 1; the call of
  \<^verbatim>\<open>convertcsv2h5\<close> stands inside it, its exception is caught and printed into the
  captured output, and the child ends with status 0 whether or not the call went
  through.
\<close>

definition inline_script :: "library \<Rightarrow> int" where
  "inline_script l =
     (case lib_import l of
        Imported \<Rightarrow> if lib_patched l then 0 else 0
      | ImportError \<Rightarrow> 1
      | ImportOtherError \<Rightarrow> 1)"

text \<open>\<^verbatim>\<open>subprocess.run\<close> on the helper script and on the inline script.\<close>

definition helper_run :: "converter \<Rightarrow> run_result" where
  "helper_run c =
     (case helper_child c of
        None \<Rightarrow> RunRaises
      | Some l \<Rightarrow> Exit (h5_converter_main (helper_sees_config c) l))"

definition inline_run :: "converter \<Rightarrow> run_result" where
  "inline_run c =
     (case inline_child c of
        None \<Rightarrow> RunRaises
      | Some l \<Rightarrow> Exit (inline_script l))"

text \<open>Method 3, the handler of \<^verbatim>\<open>e2\<close>: one more direct call; its handler returns \<^verbatim>\<open>True\<close>.\<close>

definition h5_method3 :: "converter \<Rightarrow> 'img effect list \<times> bool" where
  "h5_method3 c =
     (if convert_env c then ([], True)
      else ([Print Warning ''H5 file generation encountered interactive prompt''], True))"

text \<open>
  The fallback of method 2: the inline script in a subprocess.  A return code other
  than 0 raises, and so does the subprocess call itself; both land in method 3.
\<close>

definition h5_inline :: "converter \<Rightarrow> 'img effect list \<times> bool" where
  "h5_inline c =
     (case inline_run c of
        Exit rc \<Rightarrow> if rc = 0 then ([], True) else h5_method3 c
      | RunRaises \<Rightarrow> h5_method3 c)"

text \<open>Method 2, the handler of \<^verbatim>\<open>e1\<close>: the helper script when it exists, then the fallback.\<close>

definition h5_method2 :: "converter \<Rightarrow> 'img effect list \<times> bool" where
  "h5_method2 c =
     (if helper_exists c then
        (case helper_run c of
           Exit rc \<Rightarrow>
             if rc = 0 then ([], True)
             else (let r = h5_inline c in (Print Warning ''H5 converter output'' # fst r, snd r))
         | RunRaises \<Rightarrow> h5_method3 c)
      else h5_inline c)"

definition generate_h5_file :: "converter \<Rightarrow> 'img effect list \<times> bool" where
  "generate_h5_file c =
     (case import_deeplabcut c of
        ImportError \<Rightarrow>
          ([Print Warning ''Cannot import deeplabcut, skipping h5 file generation''], True)
      | ImportOtherError \<Rightarrow> ([Print Error ''h5 file generation failed''], True)
      | Imported \<Rightarrow> if convert_patched c then ([], True) else h5_method2 c)"

subsection \<open>\<^verbatim>\<open>create_dataset_summary\<close>\<close>

text \<open>
  The method has no exception handler.  A file that cannot be opened or written raises
  \<^verbatim>\<open>OSError\<close>; a missing \<^verbatim>\<open>fps\<close> makes the format \<^verbatim>\<open>.2f\<close> fail on \<^verbatim>\<open>'N/A'\<close>; a missing
  \<^verbatim>\<open>video_file\<close> is a \<^verbatim>\<open>KeyError\<close>.
\<close>

definition summary_path :: "string \<Rightarrow> string" where
  "summary_path out = pjoin out ''dataset_summary.txt''"

definition create_dataset_summary ::
  "'img world \<Rightarrow> string \<Rightarrow> string \<Rightarrow> string \<Rightarrow> pipeline \<Rightarrow> 'img effect list \<times> unit outcome" where
  "create_dataset_summary w out project scorer_name self =
     (let summary_file = summary_path out;
          start_f = fst (frame_range self);
          end_f = snd (frame_range self);
          total_selected_frames = end_f - start_f + 1
      in if \<not> writable w summary_file then ([], Raises ''OSError'')
         else if fps (video_info self) = None then ([], Raises ''ValueError'')
         else if video_file (video_info self) = None then ([], Raises ''KeyError'')
         else
           ([WriteSummary summary_file
               \<lparr>sum_project_name = project, sum_scorer = scorer_name,
                sum_frame_selection = frame_selection self,
                sum_frame_range = frame_range self,
                sum_total_selected_frames = total_selected_frames,
                sum_valid_annotation_frames =
                  length (filter (\<lambda>f. start_f \<le> f \<and> f \<le> end_f) (map fst (annotations self))),
                sum_keypoints = bodyparts self\<rparr>],
            Returns ()))"

subsection \<open>\<^verbatim>\<open>run_pipeline\<close>\<close>

record 'img run =
  outcome :: "bool outcome"
  effects :: "'img effect list"
  final :: pipeline

text \<open>
  Steps 8 and 9.  The value of \<^verbatim>\<open>generate_h5_file\<close> is dropped; the summary is
  called without a handler, so what it raises escapes \<^verbatim>\<open>run_pipeline\<close>.
\<close>

definition run_reports :: "'img world \<Rightarrow> args \<Rightarrow> pipeline \<Rightarrow> 'img effect list \<times> bool outcome" where
  "run_reports w a self =
     (let h5 = generate_h5_file (converter w);
          s = create_dataset_summary w (output_dir a) (project_name a) (scorer a) self
      in (fst h5 @ fst s,
          case snd s of Raises x \<Rightarrow> Raises x | Returns u \<Rightarrow> Returns True))"

text \<open>Steps 4 to 7, each one ending the run when it fails, then steps 8 and 9.\<close>

definition run_outputs :: "'img world \<Rightarrow> args \<Rightarrow> pipeline \<Rightarrow> 'img effect list \<times> bool outcome" where
  "run_outputs w a self =
     (let ex = extract_frames w (video_file_arg a) (output_dir a) self
      in if \<not> snd ex then (fst ex, Returns False)
         else
           (let cs = create_deeplabcut_csv w (output_dir a) (scorer a) self
            in if snd cs \<noteq> Returns True then (fst ex @ fst cs, snd cs)
               else
                 (let cf = create_deeplabcut_config w (output_dir a) (project_name a) (scorer a) self
                  in if snd cf \<noteq> Returns True then (fst ex @ fst cs @ fst cf, snd cf)
                     else
                       (let cp = copy_video_to_project w (video_file_arg a) (output_dir a)
                        in if \<not> snd cp then (fst ex @ fst cs @ fst cf @ fst cp, Returns False)
                           else
                             (let rp = run_reports w a self
                              in (fst ex @ fst cs @ fst cf @ fst cp @ fst rp, snd rp))))))"

definition xml_errors :: "xml_source \<Rightarrow> 'img effect list" where
  "xml_errors src =
     (case src of
        XmlParseError \<Rightarrow> [Print Error ''XML parsing error'']
      | XmlFileNotFound \<Rightarrow> [Print Error ''File not found'']
      | XmlDocument doc \<Rightarrow> [])"

definition run_pipeline :: "'img world \<Rightarrow> args \<Rightarrow> 'img run" where
  "run_pipeline w a =
     (case parse_cvat_xml (xml_parse w) init_pipeline of
        None \<Rightarrow>
          \<lparr>outcome = Returns False, effects = xml_errors (xml_parse w), final = init_pipeline\<rparr>
      | Some s1 \<Rightarrow>
          (let vi = get_video_info (capture w) (video_file_arg a) s1
           in case snd vi of
                None \<Rightarrow> \<lparr>outcome = Returns False, effects = fst vi, final = s1\<rparr>
              | Some s2 \<Rightarrow>
                  (let fs = interactive_frame_selection w s2
                   in case snd fs of
                        Raises x \<Rightarrow>
                          \<lparr>outcome = Raises x, effects = fst vi, final = fst fs\<rparr>
                      | Returns u \<Rightarrow>
                          (let r = run_outputs w a (fst fs)
                           in \<lparr>outcome = snd r, effects = fst vi @ fst r,
                               final = fst fs\<rparr>))))"

subsection \<open>The graphical front end: \<^verbatim>\<open>validate_inputs\<close> and \<^verbatim>\<open>run_conversion\<close>\<close>

record gui =
  gui_xml_file :: string
  gui_video_file :: string
  gui_output_dir :: string
  gui_project_name :: string
  gui_scorer_name :: string
  gui_frame_selection :: string
  gui_start_frame :: int
  gui_end_frame :: int

definition validate_inputs :: "'img world \<Rightarrow> gui \<Rightarrow> bool" where
  "validate_inputs w g =
     (if gui_xml_file g = [] then False
      else if gui_video_file g = [] then False
      else if gui_output_dir g = [] then False
      else if \<not> path_exists w (gui_xml_file g) then False
      else if \<not> path_exists w (gui_video_file g) then False
      else if gui_frame_selection g = ''range'' then
        (if gui_start_frame g < 0 \<or> gui_end_frame g < gui_start_frame g then False else True)
      else True)"

text \<open>The frame selection of \<^verbatim>\<open>run_conversion\<close>, taken from the form without a prompt.\<close>

definition gui_frame_selection_step :: "gui \<Rightarrow> pipeline \<Rightarrow> pipeline \<times> unit outcome" where
  "gui_frame_selection_step g self =
     (if gui_frame_selection g = ''range'' then
        (self\<lparr>frame_selection := ''range'',
               frame_range := (gui_start_frame g, gui_end_frame g)\<rparr>, Returns ())
      else
        (case total_frames (video_info self) of
           None \<Rightarrow> (self\<lparr>frame_selection := ''full''\<rparr>, Raises ''KeyError'')
         | Some n \<Rightarrow>
             (self\<lparr>frame_selection := ''full'', frame_range := (0, n - 1)\<rparr>, Returns ())))"

definition gui_args :: "gui \<Rightarrow> args" where
  "gui_args g =
     \<lparr>xml_file = gui_xml_file g, video_file_arg = gui_video_file g,
      output_dir = gui_output_dir g, project_name = gui_project_name g,
      scorer = gui_scorer_name g\<rparr>"

text \<open>
  \<^verbatim>\<open>run_conversion\<close> calls the same stage methods in the same order as steps 4 to 9
  of \<^verbatim>\<open>run_pipeline\<close>, inside one \<^verbatim>\<open>try\<close> whose handler reports failure.
\<close>

definition caught :: "'img effect list \<times> bool outcome \<Rightarrow> 'img effect list \<times> bool outcome" where
  "caught r =
     (case snd r of
        Raises x \<Rightarrow> (fst r @ [Print Error ''Error during conversion''], Returns False)
      | Returns b \<Rightarrow> r)"

definition run_conversion :: "'img world \<Rightarrow> gui \<Rightarrow> 'img run" where
  "run_conversion w g =
     (case parse_cvat_xml (xml_parse w) init_pipeline of
        None \<Rightarrow>
          \<lparr>outcome = Returns False, effects = xml_errors (xml_parse w), final = init_pipeline\<rparr>
      | Some s1 \<Rightarrow>
          (let vi = get_video_info (capture w) (gui_video_file g) s1
           in case snd vi of
                None \<Rightarrow> \<lparr>outcome = Returns False, effects = fst vi, final = s1\<rparr>
              | Some s2 \<Rightarrow>
                  (let fs = gui_frame_selection_step g s2
                   in case snd fs of
                        Raises x \<Rightarrow>
                          \<lparr>outcome = Returns False,
                           effects = fst vi @ [Print Error ''Error during conversion''],
                           final = fst fs\<rparr>
                      | Returns u \<Rightarrow>
                          (let r = caught (run_outputs w (gui_args g) (fst fs))
                           in \<lparr>outcome = snd r,
                               effects = fst vi @ MakeDir (gui_output_dir g) # fst r,
                               final = fst fs\<rparr>))))"

text \<open>
  \<^verbatim>\<open>start_conversion\<close>: nothing runs when validation fails.  The pipeline module is
  taken to be importable.
\<close>

definition start_conversion :: "'img world \<Rightarrow> gui \<Rightarrow> 'img run option" where
  "start_conversion w g = (if \<not> validate_inputs w g then None else Some (run_conversion w g))"

subsection \<open>Observations on a run\<close>

fun frames_read :: "'img effect list \<Rightarrow> nat" where
  "frames_read [] = 0"
| "frames_read (ReadFrame # es) = Suc (frames_read es)"
| "frames_read (e # es) = frames_read es"

text \<open>The tables and texts written, with their paths, in order.\<close>

fun tables_written :: "'img effect list \<Rightarrow> (string \<times> cell list list) list" where
  "tables_written [] = []"
| "tables_written (WriteTable p t # es) = (p, t) # tables_written es"
| "tables_written (e # es) = tables_written es"

fun texts_written :: "'img effect list \<Rightarrow> (string \<times> string) list" where
  "texts_written [] = []"
| "texts_written (WriteText p t # es) = (p, t) # texts_written es"
| "texts_written (e # es) = texts_written es"

fun prints :: "'img effect list \<Rightarrow> (level \<times> string) list" where
  "prints [] = []"
| "prints (Print l m # es) = (l, m) # prints es"
| "prints (e # es) = prints es"

text \<open>The data rows of a table are the rows after the three header rows.\<close>

definition data_rows :: "cell list list \<Rightarrow> cell list list" where
  "data_rows t = drop 3 t"

text \<open>
  The image a data row names: its first three cells are the path components below the
  output directory.
\<close>

definition cell_text :: "cell \<Rightarrow> string" where
  "cell_text c = (case c of Str s \<Rightarrow> s | Num x \<Rightarrow> [] | NaN \<Rightarrow> [])"

definition row_image :: "cell list \<Rightarrow> string" where
  "row_image row = cell_text (row ! 2)"

definition row_image_path :: "string \<Rightarrow> cell list \<Rightarrow> string" where
  "row_image_path out row =
     pjoin (pjoin (pjoin out (cell_text (row ! 0))) (cell_text (row ! 1))) (cell_text (row ! 2))"

text \<open>The images written, with their paths, in order.\<close>

fun image_writes :: "'img effect list \<Rightarrow> (string \<times> 'img) list" where
  "image_writes [] = []"
| "image_writes (WriteImage p i # es) = (p, i) # image_writes es"
| "image_writes (e # es) = image_writes es"

text \<open>The images the data rows of the written tables name, as paths.\<close>

definition table_images :: "string \<Rightarrow> 'img effect list \<Rightarrow> string list" where
  "table_images out es =
     map (row_image_path out) (concat (map (\<lambda>pt. data_rows (snd pt)) (tables_written es)))"

text \<open>The file system after a list of effects: a path holds what was written to it last.\<close>

datatype 'img content =
  ImageFile 'img
| TableFile "cell list list"
| TextFile string
| CopyOf string
| SummaryFile summary

fun apply_effect ::
  "(string \<Rightarrow> 'img content option) \<Rightarrow> 'img effect \<Rightarrow> (string \<Rightarrow> 'img content option)" where
  "apply_effect fs (WriteImage p i) = fs(p \<mapsto> ImageFile i)"
| "apply_effect fs (WriteTable p t) = fs(p \<mapsto> TableFile t)"
| "apply_effect fs (WriteText p t) = fs(p \<mapsto> TextFile t)"
| "apply_effect fs (CopyFile src dst) = fs(dst \<mapsto> CopyOf src)"
| "apply_effect fs (WriteSummary p s) = fs(p \<mapsto> SummaryFile s)"
| "apply_effect fs (MakeDir p) = fs"
| "apply_effect fs ReadFrame = fs"
| "apply_effect fs (Print l m) = fs"

definition files_after ::
  "(string \<Rightarrow> 'img content option) \<Rightarrow> 'img effect list \<Rightarrow> (string \<Rightarrow> 'img content option)" where
  "files_after fs es = foldl apply_effect fs es"

fun written_path :: "'img effect \<Rightarrow> string option" where
  "written_path (WriteImage p i) = Some p"
| "written_path (WriteTable p t) = Some p"
| "written_path (WriteText p t) = Some p"
| "written_path (CopyFile src dst) = Some dst"
| "written_path (WriteSummary p s) = Some p"
| "written_path (MakeDir p) = None"
| "written_path ReadFrame = None"
| "written_path (Print l m) = None"

subsection \<open>Notions of the specification\<close>

text \<open>The coordinate pair recorded for a keypoint name in a frame, if any.\<close>

definition lookup_keypoint :: "annotation_index \<Rightarrow> int \<Rightarrow> string \<Rightarrow> coord option" where
  "lookup_keypoint ann f k = (case map_of ann f of None \<Rightarrow> None | Some fa \<Rightarrow> map_of fa k)"

text \<open>
  What each annotation shape contributes: a box its midpoint under \<open><label>_center\<close>,
  a points record with at least two components its first two under the label.  The
  contributions of an export are listed in the order in which \<open>parse_cvat_xml\<close> walks
  it: track by track, within a track the boxes, then the points records.  Two shapes
  of one track that produce the same name are of the same kind, so for shapes that
  collide this is document order.
\<close>

definition box_contribution :: "string \<Rightarrow> box \<Rightarrow> (int \<times> string) \<times> coord" where
  "box_contribution lbl b =
     ((box_frame b, lbl @ ''_center''), ((xtl b + xbr b) / 2, (ytl b + ybr b) / 2))"

definition point_contribution :: "string \<Rightarrow> points \<Rightarrow> ((int \<times> string) \<times> coord) list" where
  "point_contribution lbl p =
     (case points_coords p of
        x # y # _ \<Rightarrow> [((points_frame p, lbl), (x, y))]
      | _ \<Rightarrow> [])"

definition track_contributions :: "track \<Rightarrow> ((int \<times> string) \<times> coord) list" where
  "track_contributions t =
     map (box_contribution (label t)) (boxes t) @
     concat (map (point_contribution (label t)) (pointss t))"

definition contributions :: "track list \<Rightarrow> ((int \<times> string) \<times> coord) list" where
  "contributions ts = concat (map track_contributions ts)"

text \<open>
  The keypoint vocabulary in the words of the specification: the box-derived names
  and the point-derived names of all tracks, de-duplicated and sorted.
\<close>

definition keypoint_names :: "track \<Rightarrow> string list" where
  "keypoint_names t =
     map (\<lambda>b. label t @ ''_center'') (boxes t) @
     map (\<lambda>p. label t) (filter (\<lambda>p. 2 \<le> length (points_coords p)) (pointss t))"

definition spec_vocabulary :: "track list \<Rightarrow> string list" where
  "spec_vocabulary ts = sort (remdups (concat (map keypoint_names ts)))"

text \<open>A Python dictionary of dictionaries has each key once.\<close>

definition wf_index :: "annotation_index \<Rightarrow> bool" where
  "wf_index ann = (distinct (map fst ann) \<and> list_all (\<lambda>e. distinct (map fst (snd e))) ann)"

text \<open>
  The frames of a window that the specification gives a row: those whose entry in the
  annotation index has at least one keypoint.
\<close>

definition frames_with_keypoints :: "annotation_index \<Rightarrow> int \<times> int \<Rightarrow> int list" where
  "frames_with_keypoints ann r =
     filter (\<lambda>f. fst r \<le> f \<and> f \<le> snd r \<and> map_of ann f \<noteq> None \<and> map_of ann f \<noteq> Some [])
       (sort (map fst ann))"

text \<open>
  A frame number zero-padded to 4 digits, as the specification writes it: the
  thousands, hundreds, tens and units of a number below 10000.
\<close>

definition four_digits :: "nat \<Rightarrow> string" where
  "four_digits n =
     [''0123456789'' ! (n div 1000 mod 10), ''0123456789'' ! (n div 100 mod 10),
      ''0123456789'' ! (n div 10 mod 10), ''0123456789'' ! (n mod 10)]"

text \<open>
  Zero padding to 4 digits for any frame number: at least four decimal digits that
  read back as the number, with no zero in front beyond the fourth digit.
\<close>

definition padded_decimal :: "nat \<Rightarrow> string \<Rightarrow> bool" where
  "padded_decimal n ds =
     (4 \<le> length ds \<and> set ds \<subseteq> set ''0123456789'' \<and> dec_val ds = n \<and>
      (if 4 < length ds then hd ds \<noteq> CHR ''0'' else True))"

text \<open>The window condition of the specification for the range policy.\<close>

definition valid_window :: "int \<Rightarrow> int \<times> int \<Rightarrow> bool" where
  "valid_window total_n r = (0 \<le> fst r \<and> fst r \<le> snd r \<and> snd r \<le> total_n - 1)"

text \<open>
  The converter did not deliver: the library is absent, or it imports and every call
  of \<^verbatim>\<open>convertcsv2h5\<close> raises, in the pipeline's process and in the child processes
  (the helper's only when the helper script exists).
\<close>

definition converter_absent :: "converter \<Rightarrow> bool" where
  "converter_absent c = (import_deeplabcut c = ImportError)"

definition library_fails :: "library \<Rightarrow> bool" where
  "library_fails l =
     (lib_import l = Imported \<and> \<not> lib_patched l \<and> \<not> lib_env l \<and> \<not> lib_direct l)"

definition converter_fails :: "converter \<Rightarrow> bool" where
  "converter_fails c =
     (import_deeplabcut c = Imported \<and> \<not> convert_patched c \<and> \<not> convert_env c \<and>
      (if helper_exists c
       then (case helper_child c of None \<Rightarrow> True | Some l \<Rightarrow> library_fails l)
       else True) \<and>
      (case inline_child c of None \<Rightarrow> True | Some l \<Rightarrow> library_fails l))"

subsection \<open>Example inputs\<close>

text \<open>
  An export with two point tracks of the same label on frame 5 and a box track on the
  same frame, a ten-frame video, and the answer \<^verbatim>\<open>1\<close> (all frames) at the prompt.
\<close>

definition demo_doc :: document where
  "demo_doc =
     \<lparr>meta_job = None,
      tracks =
        [\<lparr>track_id = ''0'', label = ''Bee'', boxes = [],
          pointss = [\<lparr>points_frame = 5, points_coords = [12, 8]\<rparr>]\<rparr>,
         \<lparr>track_id = ''1'', label = ''Bee'', boxes = [],
          pointss = [\<lparr>points_frame = 5, points_coords = [20, 30]\<rparr>]\<rparr>,
         \<lparr>track_id = ''2'', label = ''Queen'',
          boxes = [\<lparr>box_frame = 5, xtl = 0, ytl = 0, xbr = 10, ybr = 20\<rparr>],
          pointss = []\<rparr>]\<rparr>"

definition working_library :: library where
  "working_library =
     \<lparr>lib_import = Imported, lib_patched = True, lib_env = True, lib_direct = True\<rparr>"

definition demo_converter :: converter where
  "demo_converter =
     \<lparr>import_deeplabcut = Imported, convert_patched = True, helper_exists = True,
      helper_child = Some working_library, helper_sees_config = True,
      inline_child = Some working_library, convert_env = True\<rparr>"

definition demo_world :: "nat world" where
  "demo_world =
     \<lparr>xml_parse = XmlDocument demo_doc,
      capture = Opened 10 25 640 480 [0, 1, 2, 3, 4, 5, 6, 7, 8, 9],
      console = [''1''],
      py_int = (\<lambda>s. None),
      py_strip = (\<lambda>s. s),
      path_stem = (\<lambda>p. ''video''),
      path_name = (\<lambda>p. ''video.mp4''),
      path_absolute = (\<lambda>p. ''/work/'' @ p),
      path_exists = (\<lambda>p. True),
      writable = (\<lambda>p. True),
      copy_ok = True,
      today = ''Sep16'',
      converter = demo_converter\<rparr>"

definition demo_args :: args where
  "demo_args =
     \<lparr>xml_file = ''annotations.xml'', video_file_arg = ''video.mp4'', output_dir = ''out'',
      project_name = ''BeePoseEstimation'', scorer = ''manual''\<rparr>"

text \<open>A state as the stages before table assembly leave it, with frames 5 and 12 annotated.\<close>

definition demo_state :: pipeline where
  "demo_state =
     init_pipeline
       \<lparr>annotations :=
          [(12, [(''Bee'', (1, 2))]), (5, [(''Bee'', (20, 30)), (''Queen_center'', (5, 10))])],
        video_info := empty_video_info\<lparr>video_file := Some ''video.mp4''\<rparr>,
        bodyparts := [''Bee'', ''Queen_center''],
        frame_range := (0, 9)\<rparr>"

text \<open>The backend reports ten frames and delivers three.\<close>

definition short_video_world :: "nat world" where
  "short_video_world = demo_world\<lparr>capture := Opened 10 25 640 480 [0, 1, 2]\<rparr>"

text \<open>One points record on frame 3 whose \<^verbatim>\<open>points\<close> attribute is empty.\<close>

definition empty_points_doc :: document where
  "empty_points_doc =
     \<lparr>meta_job = None,
      tracks =
        [\<lparr>track_id = ''0'', label = ''Bee'', boxes = [],
          pointss = [\<lparr>points_frame = 3, points_coords = []\<rparr>]\<rparr>]\<rparr>"

definition empty_points_world :: "nat world" where
  "empty_points_world = demo_world\<lparr>xml_parse := XmlDocument empty_points_doc\<rparr>"

text \<open>The summary file cannot be written.\<close>

definition readonly_summary_world :: "nat world" where
  "readonly_summary_world = demo_world\<lparr>writable := (\<lambda>p. p \<noteq> ''out/dataset_summary.txt'')\<rparr>"

text \<open>The same run one day later.\<close>

definition next_day_world :: "nat world" where
  "next_day_world = demo_world\<lparr>today := ''Sep17''\<rparr>"

text \<open>The library is missing.\<close>

definition no_library_world :: "nat world" where
  "no_library_world = demo_world\<lparr>converter := demo_converter\<lparr>import_deeplabcut := ImportError\<rparr>\<rparr>"

text \<open>The library imports and every call of \<^verbatim>\<open>convertcsv2h5\<close> raises.\<close>

definition failing_library :: library where
  "failing_library =
     \<lparr>lib_import = Imported, lib_patched = False, lib_env = False, lib_direct = False\<rparr>"

definition failing_converter :: converter where
  "failing_converter =
     \<lparr>import_deeplabcut = Imported, convert_patched = False, helper_exists = True,
      helper_child = Some failing_library, helper_sees_config = True,
      inline_child = Some failing_library, convert_env = False\<rparr>"

text \<open>The same, and \<^verbatim>\<open>h5_converter.py\<close> does not lie beside the module.\<close>

definition failing_converter_no_helper :: converter where
  "failing_converter_no_helper = failing_converter\<lparr>helper_exists := False\<rparr>"

definition failing_no_helper_world :: "nat world" where
  "failing_no_helper_world = demo_world\<lparr>converter := failing_converter_no_helper\<rparr>"

definition failing_world :: "nat world" where
  "failing_world = demo_world\<lparr>converter := failing_converter\<rparr>"

text \<open>The video cannot be opened.\<close>

definition unreadable_video_world :: "nat world" where
  "unreadable_video_world = demo_world\<lparr>capture := CannotOpen\<rparr>"

text \<open>The video opens and the backend reports no frames.\<close>

definition zero_frames_world :: "nat world" where
  "zero_frames_world = demo_world\<lparr>capture := Opened 0 25 640 480 []\<rparr>"

text \<open>
  A three-frame video with a point on frame 2, and the form filled in with the range
  2 to 4.
\<close>

definition frame2_doc :: document where
  "frame2_doc =
     \<lparr>meta_job = None,
      tracks =
        [\<lparr>track_id = ''0'', label = ''Bee'', boxes = [],
          pointss = [\<lparr>points_frame = 2, points_coords = [12, 8]\<rparr>]\<rparr>]\<rparr>"

definition three_frame_world :: "nat world" where
  "three_frame_world =
     demo_world\<lparr>xml_parse := XmlDocument frame2_doc,
                 capture := Opened 3 25 640 480 [0, 1, 2]\<rparr>"

definition range_2_4_form :: gui where
  "range_2_4_form =
     \<lparr>gui_xml_file = ''annotations.xml'', gui_video_file = ''video.mp4'',
      gui_output_dir = ''out'', gui_project_name = ''BeePoseEstimation'',
      gui_scorer_name = ''manual'', gui_frame_selection = ''range'',
      gui_start_frame = 2, gui_end_frame = 4\<rparr>"

text \<open>The form left on all frames.\<close>

definition all_frames_form :: gui where
  "all_frames_form = range_2_4_form\<lparr>gui_frame_selection := ''full''\<rparr>"

section \<open>Properties\<close>

subsection \<open>The filename rule is injective\<close>


lemma dec_nat_small: "n < 10 \<Longrightarrow> dec_nat n = [digit_char n]"
  by (subst dec_nat.simps) simp

lemma dec_nat_large: "\<not> n < 10 \<Longrightarrow> dec_nat n = dec_nat (n div 10) @ [digit_char (n mod 10)]"
  by (subst dec_nat.simps) simp

lemma replicate_numeral: "replicate (numeral k) x = x # replicate (pred_numeral k) x"
  by (simp add: numeral_eq_Suc)

lemmas fmt_eval = frame_filename_def fmt_04d_def zero_pad_def dec_nat_small dec_nat_large
  digit_char_def replicate_numeral

lemma less_10_cases: "d < 10 \<Longrightarrow> d \<in> {0, 1, 2, 3, 4, 5, 6, 7, 8, 9::nat}"
  by auto

lemma of_char_digit_char: "d < 10 \<Longrightarrow> of_char (digit_char d) = 48 + d"
  using less_10_cases [of d] by (auto simp add: digit_char_def)

lemma digit_val_digit_char: "d < 10 \<Longrightarrow> digit_val (digit_char d) = d"
  by (simp add: digit_val_def of_char_digit_char)

lemma digit_char_not_minus: "d < 10 \<Longrightarrow> digit_char d \<noteq> CHR ''-''"
proof
  assume d: "d < 10" and "digit_char d = CHR ''-''"
  then have "(of_char (digit_char d) :: nat) = of_char (CHR ''-'')" by simp
  with d show False by (simp add: of_char_digit_char)
qed

lemma dec_val_append: "dec_val (xs @ [c]) = 10 * dec_val xs + digit_val c"
  by (simp add: dec_val_def)

lemma dec_val_dec_nat: "dec_val (dec_nat n) = n"
proof (induction n rule: dec_nat.induct)
  case (1 n)
  show ?case
  proof (cases "n < 10")
    case True
    then show ?thesis by (simp add: dec_nat.simps [of n] dec_val_def digit_val_digit_char)
  next
    case False
    with 1 show ?thesis
      by (simp add: dec_nat.simps [of n] dec_val_append digit_val_digit_char)
  qed
qed

lemma dec_val_replicate0: "dec_val (replicate k (CHR ''0'') @ s) = dec_val s"
proof -
  have "foldl (\<lambda>a c. 10 * a + digit_val c) 0 (replicate k (CHR ''0'')) = 0"
    by (induction k) (simp_all add: digit_val_def)
  then show ?thesis by (simp add: dec_val_def)
qed

lemma dec_val_zero_pad: "dec_val (zero_pad w s) = dec_val s"
  by (simp add: zero_pad_def dec_val_replicate0)

lemma dec_nat_no_minus: "CHR ''-'' \<notin> set (dec_nat n)"
proof (induction n rule: dec_nat.induct)
  case (1 n)
  show ?case
  proof (cases "n < 10")
    case True
    then show ?thesis
      using digit_char_not_minus [of n] by (auto simp add: dec_nat.simps [of n])
  next
    case False
    with 1 show ?thesis
      using digit_char_not_minus [of "n mod 10"] by (auto simp add: dec_nat.simps [of n])
  qed
qed

lemma zero_pad_no_minus: "CHR ''-'' \<notin> set (zero_pad w (dec_nat n))"
  using dec_nat_no_minus [of n] by (auto simp add: zero_pad_def)

lemma dec_nat_nonempty: "dec_nat n \<noteq> []"
  by (subst dec_nat.simps) simp

lemma read_04d_fmt_04d: "read_04d (fmt_04d n) = n"
proof (cases "n < 0")
  case True
  then show ?thesis
    by (simp add: read_04d_def fmt_04d_def dec_val_zero_pad dec_val_dec_nat)
next
  case False
  let ?s = "zero_pad 4 (dec_nat (nat n))"
  have ne: "?s \<noteq> []" by (simp add: zero_pad_def dec_nat_nonempty)
  then obtain c cs where s: "?s = c # cs" by (cases ?s) auto
  have "c \<noteq> CHR ''-''" using zero_pad_no_minus [of 4 "nat n"] s by auto
  with False s show ?thesis
    using dec_val_zero_pad [of 4 "dec_nat (nat n)"]
    by (simp add: read_04d_def fmt_04d_def dec_val_dec_nat)
qed

lemma fmt_04d_inj: "fmt_04d a = fmt_04d b \<Longrightarrow> a = b"
  by (metis read_04d_fmt_04d)

lemma frame_filename_inj: "frame_filename a = frame_filename b \<longleftrightarrow> a = b"
proof
  assume "frame_filename a = frame_filename b"
  then have "fmt_04d a = fmt_04d b" by (simp add: frame_filename_def)
  then show "a = b" by (rule fmt_04d_inj)
qed simp

lemma length_dec_nat_le: "n < 10 ^ Suc k \<Longrightarrow> length (dec_nat n) \<le> Suc k"
proof (induction k arbitrary: n)
  case 0
  then show ?case by (simp add: dec_nat_small)
next
  case (Suc k)
  show ?case
  proof (cases "n < 10")
    case True
    then show ?thesis by (simp add: dec_nat_small)
  next
    case False
    from Suc.prems have "n div 10 < 10 ^ Suc k" by (simp add: less_mult_imp_div_less)
    then have "length (dec_nat (n div 10)) \<le> Suc k" by (rule Suc.IH)
    with False show ?thesis by (simp add: dec_nat_large)
  qed
qed

text \<open>Frame numbers below 10000 are rendered with exactly four digits.\<close>

lemma length_fmt_04d: "0 \<le> n \<Longrightarrow> n < 10000 \<Longrightarrow> length (fmt_04d n) = 4"
proof -
  assume n: "0 \<le> n" "n < 10000"
  then have "nat n < 10 ^ Suc 3" by simp
  then have "length (dec_nat (nat n)) \<le> Suc 3" by (rule length_dec_nat_le)
  with n show ?thesis by (simp add: fmt_04d_def zero_pad_def)
qed

subsection \<open>Parsing: the annotation index and the vocabulary\<close>

lemma lookup_ensure_frame: "lookup_keypoint (ensure_frame g ann) f k = lookup_keypoint ann f k"
  by (auto simp add: lookup_keypoint_def ensure_frame_def fun_eq_iff map_add_def split: option.splits)

lemma map_of_ensure_frame_in: "map_of (ensure_frame g ann) g \<noteq> None"
  by (auto simp add: ensure_frame_def map_add_def split: option.splits)

lemma lookup_set_keypoint:
  "map_of ann g \<noteq> None \<Longrightarrow>
   lookup_keypoint (set_keypoint g n xy ann) f k = (if f = g \<and> k = n then Some xy else lookup_keypoint ann f k)"
  by (auto simp add: lookup_keypoint_def set_keypoint_def map_of_map_entry update_conv' split: option.splits)

lemma lookup_process_box:
  "lookup_keypoint (fst (process_box lbl b acc)) f k =
   (if (f, k) = fst (box_contribution lbl b) then Some (snd (box_contribution lbl b))
    else lookup_keypoint (fst acc) f k)"
  by (simp add: process_box_def Let_def lookup_set_keypoint map_of_ensure_frame_in
      lookup_ensure_frame box_contribution_def)

lemma lookup_process_point:
  "lookup_keypoint (fst (process_point lbl p acc)) f k =
   (case map_of (point_contribution lbl p) (f, k) of
      Some xy \<Rightarrow> Some xy
    | None \<Rightarrow> lookup_keypoint (fst acc) f k)"
  by (auto simp add: process_point_def Let_def lookup_set_keypoint map_of_ensure_frame_in
      lookup_ensure_frame point_contribution_def split: list.splits)

lemma lookup_boxes:
  "lookup_keypoint (fst (foldl (\<lambda>a b. process_box lbl b a) acc bs)) f k =
   (case map_of (rev (map (box_contribution lbl) bs)) (f, k) of
      Some xy \<Rightarrow> Some xy
    | None \<Rightarrow> lookup_keypoint (fst acc) f k)"
proof (induction bs arbitrary: acc)
  case Nil
  then show ?case by simp
next
  case (Cons b bs)
  show ?case
    by (simp add: Cons.IH lookup_process_box map_add_def split: option.splits prod.splits)
qed

lemma lookup_points:
  "lookup_keypoint (fst (foldl (\<lambda>a p. process_point lbl p a) acc ps)) f k =
   (case map_of (rev (concat (map (point_contribution lbl) ps))) (f, k) of
      Some xy \<Rightarrow> Some xy
    | None \<Rightarrow> lookup_keypoint (fst acc) f k)"
proof (induction ps arbitrary: acc)
  case Nil
  then show ?case by simp
next
  case (Cons p ps)
  have one: "map_of (rev (point_contribution lbl p)) = map_of (point_contribution lbl p)"
    by (simp add: point_contribution_def split: list.splits)
  show ?case
    by (simp add: Cons.IH lookup_process_point map_add_def one split: option.splits)
qed

lemma lookup_process_track:
  "lookup_keypoint (fst (process_track t acc)) f k =
   (case map_of (rev (track_contributions t)) (f, k) of
      Some xy \<Rightarrow> Some xy
    | None \<Rightarrow> lookup_keypoint (fst acc) f k)"
  by (simp add: process_track_def track_contributions_def lookup_points lookup_boxes
      map_add_def split: option.splits)

lemma lookup_tracks_gen:
  "lookup_keypoint (fst (foldl (\<lambda>a t. process_track t a) acc ts)) f k =
   (case map_of (rev (contributions ts)) (f, k) of
      Some xy \<Rightarrow> Some xy
    | None \<Rightarrow> lookup_keypoint (fst acc) f k)"
proof (induction ts arbitrary: acc)
  case Nil
  then show ?case by (simp add: contributions_def)
next
  case (Cons t ts)
  show ?case
    using Cons.IH [of "process_track t acc"]
    by (simp add: contributions_def lookup_process_track map_add_def split: option.splits)
qed

lemma lookup_process_tracks:
  "lookup_keypoint (fst (process_tracks ts)) f k = map_of (rev (contributions ts)) (f, k)"
proof -
  have "lookup_keypoint (fst ([], {})) f k = None" by (simp add: lookup_keypoint_def)
  then show ?thesis
    by (simp add: process_tracks_def lookup_tracks_gen split: option.splits)
qed

lemma same_track_shapes_collide_in_kind:
  "fst (box_contribution lbl b) \<notin> fst ` set (concat (map (point_contribution lbl) ps))"
  by (auto simp add: box_contribution_def point_contribution_def split: list.splits)

lemma map_of_rev_last:
  "cs = pre @ (key, early) # mid @ (key, late) # post \<Longrightarrow> key \<notin> fst ` set post \<Longrightarrow>
   map_of (rev cs) key = Some late"
  by (simp add: map_add_def map_of_eq_None_iff [THEN iffD2] split: option.splits)

lemma list_all_map_entry:
  "list_all (\<lambda>e. P (snd e)) xs \<Longrightarrow> (\<And>v. P v \<Longrightarrow> P (g v)) \<Longrightarrow>
   list_all (\<lambda>e. P (snd e)) (AList.map_entry k g xs)"
  by (induction xs) auto

lemma wf_ensure_frame: "wf_index ann \<Longrightarrow> wf_index (ensure_frame f ann)"
  by (auto simp add: wf_index_def ensure_frame_def map_of_eq_None_iff)

lemma wf_set_keypoint: "wf_index ann \<Longrightarrow> wf_index (set_keypoint f n xy ann)"
  using list_all_map_entry [where P = "\<lambda>v. distinct (map fst v)" and g = "AList.update n xy" and xs = ann and k = f]
  by (simp add: wf_index_def set_keypoint_def distinct_map_entry distinct_update)

lemma wf_process_box: "wf_index (fst acc) \<Longrightarrow> wf_index (fst (process_box lbl b acc))"
  by (simp add: process_box_def Let_def wf_ensure_frame wf_set_keypoint)

lemma wf_process_point: "wf_index (fst acc) \<Longrightarrow> wf_index (fst (process_point lbl p acc))"
  by (simp add: process_point_def Let_def wf_ensure_frame wf_set_keypoint split: list.splits)

lemma wf_boxes: "wf_index (fst acc) \<Longrightarrow> wf_index (fst (foldl (\<lambda>a b. process_box lbl b a) acc bs))"
  by (induction bs arbitrary: acc) (simp_all add: wf_process_box)

lemma wf_points: "wf_index (fst acc) \<Longrightarrow> wf_index (fst (foldl (\<lambda>a p. process_point lbl p a) acc ps))"
  by (induction ps arbitrary: acc) (simp_all add: wf_process_point)

lemma wf_process_track: "wf_index (fst acc) \<Longrightarrow> wf_index (fst (process_track t acc))"
  by (simp add: process_track_def wf_points wf_boxes)

lemma wf_tracks_gen: "wf_index (fst acc) \<Longrightarrow> wf_index (fst (foldl (\<lambda>a t. process_track t a) acc ts))"
  by (induction ts arbitrary: acc) (simp_all add: wf_process_track)

lemma wf_process_tracks: "wf_index (fst (process_tracks ts))"
proof -
  have "wf_index (fst ([], {}))" by (simp add: wf_index_def)
  then show ?thesis unfolding process_tracks_def by (rule wf_tracks_gen)
qed

lemma names_process_box: "snd (process_box lbl b acc) = insert (lbl @ ''_center'') (snd acc)"
  by (simp add: process_box_def Let_def)

lemma names_process_point:
  "snd (process_point lbl p acc) =
   (if 2 \<le> length (points_coords p) then insert lbl (snd acc) else snd acc)"
  by (cases "points_coords p"; cases "tl (points_coords p)")
     (auto simp add: process_point_def Let_def split: list.splits)

lemma names_boxes:
  "snd (foldl (\<lambda>a b. process_box lbl b a) acc bs) = snd acc \<union> set (map (\<lambda>b. lbl @ ''_center'') bs)"
  by (induction bs arbitrary: acc) (auto simp add: names_process_box)

lemma names_points:
  "snd (foldl (\<lambda>a p. process_point lbl p a) acc ps) =
   snd acc \<union> set (map (\<lambda>p. lbl) (filter (\<lambda>p. 2 \<le> length (points_coords p)) ps))"
  by (induction ps arbitrary: acc) (auto simp add: names_process_point)

lemma names_process_track: "snd (process_track t acc) = snd acc \<union> set (keypoint_names t)"
  by (simp add: process_track_def names_points names_boxes keypoint_names_def Un_assoc)

lemma names_tracks_gen:
  "snd (foldl (\<lambda>a t. process_track t a) acc ts) = snd acc \<union> set (concat (map keypoint_names ts))"
  by (induction ts arbitrary: acc) (auto simp add: names_process_track)

lemma names_process_tracks: "snd (process_tracks ts) = set (concat (map keypoint_names ts))"
  by (simp add: process_tracks_def names_tracks_gen)

lemma bodyparts_spec_vocabulary:
  "sorted_list_of_set (snd (process_tracks ts)) = spec_vocabulary ts"
  unfolding names_process_tracks spec_vocabulary_def by (rule sorted_list_of_set_sort_remdups)

subsection \<open>Observations distribute over the stages\<close>

lemma image_writes_append: "image_writes (xs @ ys) = image_writes xs @ image_writes ys"
  by (induction xs rule: image_writes.induct) simp_all

lemma frames_read_append: "frames_read (xs @ ys) = frames_read xs + frames_read ys"
  by (induction xs rule: frames_read.induct) simp_all

lemma tables_written_append: "tables_written (xs @ ys) = tables_written xs @ tables_written ys"
  by (induction xs rule: tables_written.induct) simp_all

lemma texts_written_append: "texts_written (xs @ ys) = texts_written xs @ texts_written ys"
  by (induction xs rule: texts_written.induct) simp_all

lemma prints_append: "prints (xs @ ys) = prints xs @ prints ys"
  by (induction xs rule: prints.induct) simp_all

lemma extract_loop_no_tables: "tables_written (fst (extract_loop dir s e frs fc ec)) = []"
  by (induction frs arbitrary: fc ec) (simp_all add: Let_def tables_written_append)

lemma extract_loop_no_texts: "texts_written (fst (extract_loop dir s e frs fc ec)) = []"
  by (induction frs arbitrary: fc ec) (simp_all add: Let_def texts_written_append)

lemma extract_frames_no_tables: "tables_written (fst (extract_frames w vf out self)) = []"
  by (simp add: extract_frames_def Let_def extract_loop_no_tables split: capture.splits)

lemma extract_frames_no_texts: "texts_written (fst (extract_frames w vf out self)) = []"
  by (simp add: extract_frames_def Let_def extract_loop_no_texts split: capture.splits)

lemma csv_no_images: "image_writes (fst (create_deeplabcut_csv w out sc self)) = []"
  by (simp add: create_deeplabcut_csv_def Let_def split: option.splits)

lemma csv_no_texts: "texts_written (fst (create_deeplabcut_csv w out sc self)) = []"
  by (simp add: create_deeplabcut_csv_def Let_def split: option.splits)

lemma config_no_images: "image_writes (fst (create_deeplabcut_config w out pr sc self)) = []"
  by (simp add: create_deeplabcut_config_def Let_def split: option.splits)

lemma config_no_tables: "tables_written (fst (create_deeplabcut_config w out pr sc self)) = []"
  by (simp add: create_deeplabcut_config_def Let_def split: option.splits)

lemma copy_writes_nothing_else:
  "image_writes (fst (copy_video_to_project w vf out)) = []"
  "tables_written (fst (copy_video_to_project w vf out)) = []"
  "texts_written (fst (copy_video_to_project w vf out)) = []"
  by (simp_all add: copy_video_to_project_def Let_def)

lemma h5_method3_only_prints:
  "image_writes (fst (h5_method3 c)) = []"
  "tables_written (fst (h5_method3 c)) = []"
  "texts_written (fst (h5_method3 c)) = []"
  by (simp_all add: h5_method3_def)

lemma h5_inline_only_prints:
  "image_writes (fst (h5_inline c)) = []"
  "tables_written (fst (h5_inline c)) = []"
  "texts_written (fst (h5_inline c)) = []"
  by (simp_all add: h5_inline_def h5_method3_only_prints split: run_result.splits)

lemma h5_method2_only_prints:
  "image_writes (fst (h5_method2 c)) = []"
  "tables_written (fst (h5_method2 c)) = []"
  "texts_written (fst (h5_method2 c)) = []"
  by (simp_all add: h5_method2_def Let_def h5_inline_only_prints h5_method3_only_prints
      split: run_result.splits)

lemma generate_h5_only_prints:
  "image_writes (fst (generate_h5_file c)) = []"
  "tables_written (fst (generate_h5_file c)) = []"
  "texts_written (fst (generate_h5_file c)) = []"
  by (simp_all add: generate_h5_file_def h5_method2_only_prints split: import_result.splits)

lemma summary_writes_nothing_else:
  "image_writes (fst (create_dataset_summary w out pr sc self)) = []"
  "tables_written (fst (create_dataset_summary w out pr sc self)) = []"
  "texts_written (fst (create_dataset_summary w out pr sc self)) = []"
  by (simp_all add: create_dataset_summary_def Let_def)

lemma reports_write_nothing_else:
  "image_writes (fst (run_reports w a self)) = []"
  "tables_written (fst (run_reports w a self)) = []"
  "texts_written (fst (run_reports w a self)) = []"
  by (simp_all add: run_reports_def Let_def image_writes_append tables_written_append
      texts_written_append generate_h5_only_prints summary_writes_nothing_else)

lemma image_writes_run_outputs:
  "image_writes (fst (run_outputs w a self)) =
   image_writes (fst (extract_frames w (video_file_arg a) (output_dir a) self))"
  by (simp add: run_outputs_def Let_def image_writes_append csv_no_images config_no_images
      copy_writes_nothing_else reports_write_nothing_else)

lemma tables_written_run_outputs:
  "tables_written (fst (run_outputs w a self)) =
   (if snd (extract_frames w (video_file_arg a) (output_dir a) self)
    then tables_written (fst (create_deeplabcut_csv w (output_dir a) (scorer a) self))
    else [])"
  by (simp add: run_outputs_def Let_def tables_written_append extract_frames_no_tables
      config_no_tables copy_writes_nothing_else reports_write_nothing_else)

lemma texts_written_run_outputs:
  "texts_written (fst (run_outputs w a self)) =
   (if snd (extract_frames w (video_file_arg a) (output_dir a) self) \<and>
       snd (create_deeplabcut_csv w (output_dir a) (scorer a) self) = Returns True
    then texts_written
           (fst (create_deeplabcut_config w (output_dir a) (project_name a) (scorer a) self))
    else [])"
  by (simp add: run_outputs_def Let_def texts_written_append extract_frames_no_texts
      csv_no_texts copy_writes_nothing_else reports_write_nothing_else)

subsection \<open>Frame extraction\<close>

lemma extract_loop_images:
  "set (image_writes (fst (extract_loop dir s e frs fc ec))) =
   {(pjoin dir (frame_filename i), frs ! nat (i - fc)) | i.
      fc \<le> i \<and> s \<le> i \<and> i \<le> e \<and> i < fc + int (length frs)}"
proof (induction frs arbitrary: fc ec)
  case Nil
  then show ?case by auto
next
  case (Cons frame rest)
  let ?P = "\<lambda>i. (pjoin dir (frame_filename i), (frame # rest) ! nat (i - fc))"
  have nth: "\<And>i. fc + 1 \<le> i \<Longrightarrow> (frame # rest) ! nat (i - fc) = rest ! nat (i - (fc + 1))"
  proof -
    fix i :: int assume "fc + 1 \<le> i"
    then have "nat (i - fc) = Suc (nat (i - (fc + 1)))" by simp
    then show "(frame # rest) ! nat (i - fc) = rest ! nat (i - (fc + 1))" by simp
  qed
  show ?case
  proof (cases "fc + 1 > e")
    case True
    then show ?thesis by (auto simp add: Let_def)
  next
    case False
    have IH: "set (image_writes (fst (extract_loop dir s e rest (fc + 1) ec'))) =
      {(pjoin dir (frame_filename i), rest ! nat (i - (fc + 1))) | i.
        fc + 1 \<le> i \<and> s \<le> i \<and> i \<le> e \<and> i < fc + 1 + int (length rest)}" for ec'
      by (rule Cons.IH)
    have split: "{?P i | i. fc \<le> i \<and> s \<le> i \<and> i \<le> e \<and> i < fc + int (length (frame # rest))} =
      (if s \<le> fc \<and> fc \<le> e then {?P fc} else {}) \<union>
      {?P i | i. fc + 1 \<le> i \<and> s \<le> i \<and> i \<le> e \<and> i < fc + 1 + int (length rest)}"
      (is "?L = ?R")
    proof
      show "?L \<subseteq> ?R"
      proof
        fix x assume "x \<in> ?L"
        then obtain i where i: "x = ?P i" "fc \<le> i" "s \<le> i" "i \<le> e"
            "i < fc + int (length (frame # rest))"
          by blast
        show "x \<in> ?R"
        proof (cases "i = fc")
          case True
          with i show ?thesis by auto
        next
          case False
          with i have "fc + 1 \<le> i" "i < fc + 1 + int (length rest)" by auto
          with i show ?thesis by blast
        qed
      qed
      show "?R \<subseteq> ?L" by (auto split: if_splits)
    qed
    have tail: "{?P i | i. fc + 1 \<le> i \<and> s \<le> i \<and> i \<le> e \<and> i < fc + 1 + int (length rest)} =
      {(pjoin dir (frame_filename i), rest ! nat (i - (fc + 1))) | i.
        fc + 1 \<le> i \<and> s \<le> i \<and> i \<le> e \<and> i < fc + 1 + int (length rest)}"
      using nth by auto
    have step: "set (image_writes (fst (extract_loop dir s e (frame # rest) fc ec))) =
      (if s \<le> fc \<and> fc \<le> e then {?P fc} else {}) \<union>
      set (image_writes (fst (extract_loop dir s e rest (fc + 1)
             (if s \<le> fc \<and> fc \<le> e then ec + 1 else ec))))"
      using False by (simp add: Let_def image_writes_append)
    show ?thesis unfolding step split tail IH ..
  qed
qed

lemma extract_loop_reads:
  "frames_read (fst (extract_loop dir s e frs fc ec)) =
   (if frs = [] then 0 else min (length frs) (max 1 (nat (e - fc + 1))))"
proof (induction frs arbitrary: fc ec)
  case Nil
  then show ?case by simp
next
  case (Cons frame rest)
  show ?case
  proof (cases "fc + 1 > e")
    case True
    then show ?thesis by (simp add: Let_def)
  next
    case False
    then have "frames_read (fst (extract_loop dir s e (frame # rest) fc ec)) =
        Suc (frames_read (fst (extract_loop dir s e rest (fc + 1)
               (if s \<le> fc \<and> fc \<le> e then ec + 1 else ec))))"
      by (simp add: Let_def frames_read_append)
    also have "\<dots> = Suc (if rest = [] then 0 else min (length rest) (max 1 (nat (e - (fc + 1) + 1))))"
      by (simp only: Cons.IH)
    also have "\<dots> = min (length (frame # rest)) (max 1 (nat (e - fc + 1)))"
      using False by (cases rest) (auto simp add: min_def max_def)
    finally show ?thesis by simp
  qed
qed

lemma pjoin_inj: "pjoin d a = pjoin d b \<longleftrightarrow> a = b"
  by (simp add: pjoin_def)

lemma extract_frames_opened:
  assumes "capture w = Opened n f wd h frames" and "frame_range self = (s, e)"
  shows "snd (extract_frames w vf out self) = True"
    and "set (image_writes (fst (extract_frames w vf out self))) =
         {(pjoin (frames_dir w out vf) (frame_filename i), frames ! nat i) | i.
            0 \<le> i \<and> s \<le> i \<and> i \<le> e \<and> i < int (length frames)}"
    and "frames_read (fst (extract_frames w vf out self)) =
         (if frames = [] then 0 else min (length frames) (max 1 (nat (e + 1))))"
  using assms
  by (simp_all add: extract_frames_def Let_def extract_loop_images extract_loop_reads)

subsection \<open>The final state of a run\<close>

lemmas parse_eval = process_tracks_def process_track_def process_point_def process_box_def
  ensure_frame_def set_keypoint_def Let_def

lemma parse_document:
  "parse_cvat_xml (XmlDocument doc) self =
   Some ((case meta_job doc of None \<Rightarrow> self | Some j \<Rightarrow> self\<lparr>video_info := job_video_info j\<rparr>)
           \<lparr>annotations := fst (process_tracks (tracks doc)),
            bodyparts := spec_vocabulary (tracks doc)\<rparr>)"
  by (simp add: parse_cvat_xml_def Let_def bodyparts_spec_vocabulary)

lemma get_video_info_bodyparts:
  "snd (get_video_info cap vf self) = Some self' \<Longrightarrow>
   bodyparts self' = bodyparts self \<and> annotations self' = annotations self"
  by (auto simp add: get_video_info_def split: capture.splits)

lemma selection_prompt_bodyparts:
  "bodyparts (fst (selection_prompt strip to_int ls self)) = bodyparts self \<and>
   annotations (fst (selection_prompt strip to_int ls self)) = annotations self \<and>
   video_info (fst (selection_prompt strip to_int ls self)) = video_info self"
  by (induction strip to_int ls self rule: selection_prompt.induct)
     (simp_all split: option.splits)

lemma interactive_frame_selection_bodyparts:
  "bodyparts (fst (interactive_frame_selection w self)) = bodyparts self"
  "annotations (fst (interactive_frame_selection w self)) = annotations self"
  "video_info (fst (interactive_frame_selection w self)) = video_info self"
  by (simp_all add: interactive_frame_selection_def selection_prompt_bodyparts)

lemma gui_frame_selection_step_bodyparts:
  "bodyparts (fst (gui_frame_selection_step g self)) = bodyparts self"
  "annotations (fst (gui_frame_selection_step g self)) = annotations self"
  "video_info (fst (gui_frame_selection_step g self)) = video_info self"
  by (simp_all add: gui_frame_selection_step_def split: option.splits)

lemma run_pipeline_final:
  assumes "parse_cvat_xml (xml_parse w) init_pipeline = Some p"
  shows "bodyparts (final (run_pipeline w a)) = bodyparts p"
    and "annotations (final (run_pipeline w a)) = annotations p"
  using assms
  by (auto simp add: run_pipeline_def Let_def interactive_frame_selection_bodyparts
      split: option.splits outcome.splits dest!: get_video_info_bodyparts)

lemma run_conversion_final:
  assumes "parse_cvat_xml (xml_parse w) init_pipeline = Some p"
  shows "bodyparts (final (run_conversion w g)) = bodyparts p"
    and "annotations (final (run_conversion w g)) = annotations p"
  using assms
  by (auto simp add: run_conversion_def Let_def gui_frame_selection_step_bodyparts
      split: option.splits outcome.splits dest!: get_video_info_bodyparts)

subsection \<open>Frame selection at the prompt\<close>

lemma range_prompt_valid:
  "range_prompt to_int mx ls = Some r \<Longrightarrow> valid_window (mx + 1) r"
  by (induction to_int mx ls rule: range_prompt.induct)
     (auto simp add: valid_window_def split: option.splits if_splits)

lemma selection_prompt_window:
  "snd (selection_prompt strip to_int ls self) = Returns u \<Longrightarrow>
   total_frames (video_info self) = Some n \<Longrightarrow>
   frame_range (fst (selection_prompt strip to_int ls self)) = (0, n - 1) \<or>
   valid_window n (frame_range (fst (selection_prompt strip to_int ls self)))"
  by (induction strip to_int ls self rule: selection_prompt.induct)
     (auto split: if_splits option.splits dest: range_prompt_valid)

lemma selection_prompt_nonneg:
  "snd (selection_prompt strip to_int ls self) = Returns u \<Longrightarrow>
   total_frames (video_info self) = Some n \<Longrightarrow>
   0 \<le> fst (frame_range (fst (selection_prompt strip to_int ls self)))"
  by (drule (1) selection_prompt_window) (auto simp add: valid_window_def)

text \<open>
  The prompt reads the console before it looks at the video information, and the
  state at a raise carries the choice already made.
\<close>

lemma selection_prompt_raises:
  "selection_prompt strip to_int [] self = (self, Raises ''EOFError'')"
  "strip l = ''2'' \<Longrightarrow> total_frames (video_info self) = Some n \<Longrightarrow>
   selection_prompt strip to_int [l] self =
     (self\<lparr>frame_selection := ''range''\<rparr>, Raises ''EOFError'')"
  "strip l = ''1'' \<Longrightarrow> total_frames (video_info self) = None \<Longrightarrow>
   selection_prompt strip to_int (l # ls) self =
     (self\<lparr>frame_selection := ''full''\<rparr>, Raises ''KeyError'')"
  by simp_all

subsection \<open>How a run of \<open>run_pipeline\<close> unfolds\<close>

text \<open>
  Either the run ends before the output stages, and then it has written nothing and
  does not report success, or it reaches them with the parsed export, the probed
  video and a window whose start is not negative.
\<close>

lemma run_pipeline_cases:
  obtains
    (stopped) "outcome (run_pipeline w a) \<noteq> Returns True"
      and "image_writes (effects (run_pipeline w a)) = []"
      and "tables_written (effects (run_pipeline w a)) = []"
      and "texts_written (effects (run_pipeline w a)) = []"
  | (outputs) doc n f wd h frames self where
      "xml_parse w = XmlDocument doc"
      and "capture w = Opened n f wd h frames"
      and "final (run_pipeline w a) = self"
      and "effects (run_pipeline w a) = fst (run_outputs w a self)"
      and "outcome (run_pipeline w a) = snd (run_outputs w a self)"
      and "video_file (video_info self) = Some (video_file_arg a)"
      and "total_frames (video_info self) = Some n"
      and "fps (video_info self) = Some f"
      and "0 \<le> fst (frame_range self)"
      and "annotations self = fst (process_tracks (tracks doc))"
      and "bodyparts self = spec_vocabulary (tracks doc)"
proof (cases "xml_parse w")
  case XmlParseError
  then show ?thesis
    by (intro stopped) (simp_all add: run_pipeline_def parse_cvat_xml_def xml_errors_def)
next
  case XmlFileNotFound
  then show ?thesis
    by (intro stopped) (simp_all add: run_pipeline_def parse_cvat_xml_def xml_errors_def)
next
  case (XmlDocument doc)
  define s1 where "s1 = (case meta_job doc of None \<Rightarrow> init_pipeline
                          | Some j \<Rightarrow> init_pipeline\<lparr>video_info := job_video_info j\<rparr>)
                         \<lparr>annotations := fst (process_tracks (tracks doc)),
                          bodyparts := spec_vocabulary (tracks doc)\<rparr>"
  have p: "parse_cvat_xml (xml_parse w) init_pipeline = Some s1"
    by (simp add: XmlDocument parse_document s1_def)
  show ?thesis
  proof (cases "capture w")
    case CannotOpen
    then show ?thesis
      by (intro stopped) (simp_all add: run_pipeline_def p get_video_info_def)
  next
    case BackendError
    then show ?thesis
      by (intro stopped) (simp_all add: run_pipeline_def p get_video_info_def)
  next
    case (Opened n f wd h frames)
    define s2 where "s2 = s1\<lparr>video_info := (video_info s1)
                 \<lparr>total_frames := Some n, fps := Some f, width := Some wd,
                  height := Some h, video_file := Some (video_file_arg a)\<rparr>\<rparr>"
    have v: "get_video_info (capture w) (video_file_arg a) s1 = ([], Some s2)"
      by (simp add: Opened get_video_info_def s2_def)
    define fs where "fs = interactive_frame_selection w s2"
    have tf: "total_frames (video_info s2) = Some n" by (simp add: s2_def)
    have keep: "bodyparts (fst fs) = bodyparts s2" "annotations (fst fs) = annotations s2"
      "video_info (fst fs) = video_info s2"
      by (simp_all add: fs_def interactive_frame_selection_bodyparts)
    show ?thesis
    proof (cases "snd fs")
      case (Raises x)
      then show ?thesis
        by (intro stopped) (simp_all add: run_pipeline_def p v Let_def fs_def [symmetric])
    next
      case (Returns u)
      have nonneg: "0 \<le> fst (frame_range (fst fs))"
        using selection_prompt_nonneg [of "py_strip w" "py_int w" "console w" s2 u n]
          Returns tf
        by (simp add: fs_def interactive_frame_selection_def)
      show ?thesis
      proof (rule outputs [of doc n f wd h frames "fst fs"])
        show "xml_parse w = XmlDocument doc" by (rule XmlDocument)
        show "capture w = Opened n f wd h frames" by (rule Opened)
        show "final (run_pipeline w a) = fst fs"
          by (simp add: run_pipeline_def p v Returns Let_def fs_def [symmetric])
        show "effects (run_pipeline w a) = fst (run_outputs w a (fst fs))"
          by (simp add: run_pipeline_def p v Returns Let_def fs_def [symmetric])
        show "outcome (run_pipeline w a) = snd (run_outputs w a (fst fs))"
          by (simp add: run_pipeline_def p v Returns Let_def fs_def [symmetric])
        show "video_file (video_info (fst fs)) = Some (video_file_arg a)"
          by (simp add: keep s2_def)
        show "total_frames (video_info (fst fs)) = Some n" by (simp add: keep s2_def)
        show "fps (video_info (fst fs)) = Some f" by (simp add: keep s2_def)
        show "0 \<le> fst (frame_range (fst fs))" by (rule nonneg)
        show "annotations (fst fs) = fst (process_tracks (tracks doc))"
          by (simp add: keep s2_def s1_def)
        show "bodyparts (fst fs) = spec_vocabulary (tracks doc)"
          by (simp add: keep s2_def s1_def)
      qed
    qed
  qed
qed

subsection \<open>The annotation table\<close>

lemma valid_frames_set:
  "set (valid_frames ann r) = {f \<in> fst ` set ann. fst r \<le> f \<and> f \<le> snd r}"
  by (auto simp add: valid_frames_def)

lemma valid_frames_sorted_list:
  assumes "distinct (map fst ann)"
  shows "valid_frames ann r = sorted_list_of_set {f \<in> fst ` set ann. fst r \<le> f \<and> f \<le> snd r}"
proof -
  have "sorted (valid_frames ann r)" by (simp add: valid_frames_def sorted_wrt_filter)
  moreover have "distinct (valid_frames ann r)" using assms by (simp add: valid_frames_def)
  ultimately have "sorted_list_of_set (set (valid_frames ann r)) = valid_frames ann r"
    by (rule sorted_list_of_set.idem_if_sorted_distinct)
  then show ?thesis by (simp add: valid_frames_set)
qed

lemma frames_with_keypoints_subset:
  "set (frames_with_keypoints ann r) \<subseteq> set (valid_frames ann r)"
  by (auto simp add: frames_with_keypoints_def valid_frames_def)

lemma data_rows_table: "data_rows (header_rows sc bps @ rows) = rows"
  by (simp add: data_rows_def header_rows_def)

lemma row_image_data_row: "row_image (data_row vn bps ann f) = frame_filename f"
  by (simp add: row_image_def data_row_def Let_def cell_text_def)

lemma row_image_path_data_row:
  "row_image_path out (data_row vn bps ann f) =
   pjoin (pjoin (pjoin out ''labeled-data'') vn) (frame_filename f)"
  by (simp add: row_image_path_def data_row_def Let_def cell_text_def)

lemma create_csv_table:
  assumes "video_file (video_info self) = Some vf"
  shows "tables_written (fst (create_deeplabcut_csv w out sc self)) =
         (if valid_frames (annotations self) (frame_range self) \<noteq> [] \<and>
             writable w (csv_path w out vf sc)
          then [(csv_path w out vf sc,
                 header_rows sc (bodyparts self) @
                 map (data_row (path_stem w vf) (bodyparts self) (annotations self))
                   (valid_frames (annotations self) (frame_range self)))]
          else [])"
    and "snd (create_deeplabcut_csv w out sc self) =
         Returns (valid_frames (annotations self) (frame_range self) \<noteq> [] \<and>
                  writable w (csv_path w out vf sc))"
  using assms by (simp_all add: create_deeplabcut_csv_def Let_def)

lemma table_images_run_outputs:
  assumes "video_file (video_info self) = Some (video_file_arg a)"
    and "capture w = Opened n f wd h frames"
  shows "set (table_images (output_dir a) (fst (run_outputs w a self))) \<subseteq>
         (\<lambda>i. pjoin (frames_dir w (output_dir a) (video_file_arg a)) (frame_filename i)) `
           set (valid_frames (annotations self) (frame_range self))"
proof -
  obtain s e where r: "frame_range self = (s, e)" by (cases "frame_range self")
  have ok: "snd (extract_frames w (video_file_arg a) (output_dir a) self)"
    using extract_frames_opened(1) [OF assms(2) r] by simp
  show ?thesis
    by (auto simp add: table_images_def tables_written_run_outputs ok
        create_csv_table(1) [OF assms(1)] data_rows_table row_image_path_data_row frames_dir_def)
qed

subsection \<open>Evaluating the example runs\<close>

lemmas stage_eval = get_video_info_def interactive_frame_selection_def extract_frames_def
  create_deeplabcut_csv_def create_deeplabcut_config_def copy_video_to_project_def
  generate_h5_file_def h5_method2_def h5_inline_def h5_method3_def helper_run_def
  inline_run_def h5_converter_main_def convert_csv_to_h5_auto_def inline_script_def
  create_dataset_summary_def run_reports_def run_outputs_def frames_dir_def csv_path_def config_path_def summary_path_def
  pjoin_def valid_frames_def data_row_def header_rows_def coordinate_cells_def
  init_pipeline_def empty_video_info_def spec_vocabulary_def keypoint_names_def
  parse_document parse_eval fmt_eval xml_errors_def

lemmas world_eval = demo_world_def demo_args_def demo_doc_def demo_converter_def
  short_video_world_def empty_points_world_def empty_points_doc_def
  readonly_summary_world_def next_day_world_def no_library_world_def zero_frames_world_def
  three_frame_world_def frame2_doc_def range_2_4_form_def all_frames_form_def
  failing_converter_def unreadable_video_world_def working_library_def failing_library_def
  failing_converter_no_helper_def failing_no_helper_world_def failing_world_def

lemmas run_eval = run_pipeline_def stage_eval world_eval

lemmas gui_eval = start_conversion_def validate_inputs_def run_conversion_def
  gui_frame_selection_step_def gui_args_def caught_def stage_eval world_eval

lemmas observe_eval = table_images_def data_rows_def row_image_path_def row_image_def
  cell_text_def

lemma short_video_run:
  "outcome (run_pipeline short_video_world demo_args) = Returns True"
  "frame_range (final (run_pipeline short_video_world demo_args)) = (0, 9)"
  "image_writes (effects (run_pipeline short_video_world demo_args)) =
     [(''out/labeled-data/video/frame_0000.png'', 0),
      (''out/labeled-data/video/frame_0001.png'', 1),
      (''out/labeled-data/video/frame_0002.png'', 2)]"
  "tables_written (effects (run_pipeline short_video_world demo_args)) =
     [(''out/labeled-data/video/CollectedData_manual.csv'',
       [[Str ''scorer'', Str [], Str [], Str ''manual'', Str ''manual'', Str ''manual'', Str ''manual''],
        [Str ''bodyparts'', Str [], Str [], Str ''Bee'', Str ''Bee'', Str ''Queen_center'', Str ''Queen_center''],
        [Str ''coords'', Str [], Str [], Str ''x'', Str ''y'', Str ''x'', Str ''y''],
        [Str ''labeled-data'', Str ''video'', Str ''frame_0005.png'', Num 20, Num 30, Num 5, Num 10]])]"
  by (simp_all add: run_eval)

lemma empty_points_run:
  "outcome (run_pipeline empty_points_world demo_args) = Returns True"
  "annotations (final (run_pipeline empty_points_world demo_args)) = [(3, [])]"
  "frame_range (final (run_pipeline empty_points_world demo_args)) = (0, 9)"
  "tables_written (effects (run_pipeline empty_points_world demo_args)) =
     [(''out/labeled-data/video/CollectedData_manual.csv'',
       [[Str ''scorer'', Str [], Str []],
        [Str ''bodyparts'', Str [], Str []],
        [Str ''coords'', Str [], Str []],
        [Str ''labeled-data'', Str ''video'', Str ''frame_0003.png'']])]"
  "map fst (texts_written (effects (run_pipeline empty_points_world demo_args))) =
     [''out/config.yaml'']"
  by (simp_all add: run_eval)

lemma readonly_summary_run:
  "outcome (run_pipeline readonly_summary_world demo_args) = Raises ''OSError''"
  "map fst (tables_written (effects (run_pipeline readonly_summary_world demo_args))) =
     [''out/labeled-data/video/CollectedData_manual.csv'']"
  "map fst (texts_written (effects (run_pipeline readonly_summary_world demo_args))) =
     [''out/config.yaml'']"
  "prints (effects (run_pipeline readonly_summary_world demo_args)) = []"
  by (simp_all add: run_eval)

lemma readonly_summary_conversion:
  "validate_inputs readonly_summary_world all_frames_form"
  "outcome (run_conversion readonly_summary_world all_frames_form) = Returns False"
  "prints (effects (run_conversion readonly_summary_world all_frames_form)) =
     [(Error, ''Error during conversion'')]"
  by (simp_all add: gui_eval)

lemma zero_frames_run:
  "snd (get_video_info (capture zero_frames_world) ''video.mp4'' init_pipeline) =
     Some (init_pipeline\<lparr>video_info :=
       \<lparr>total_frames = Some 0, start_frame = None, stop_frame = None, fps = Some 25,
        width = Some 640, height = Some 480, video_file = Some ''video.mp4''\<rparr>\<rparr>)"
  "total_frames (video_info (final (run_pipeline zero_frames_world demo_args))) = Some 0"
  "frame_range (final (run_pipeline zero_frames_world demo_args)) = (0, - 1)"
  "prints (effects (run_pipeline zero_frames_world demo_args)) =
     [(Error, ''No annotation data found in frame range'')]"
  by (simp_all add: run_eval)

lemma three_frame_conversion:
  "validate_inputs three_frame_world range_2_4_form"
  "start_conversion three_frame_world range_2_4_form =
     Some (run_conversion three_frame_world range_2_4_form)"
  "total_frames (video_info (final (run_conversion three_frame_world range_2_4_form))) = Some 3"
  "frame_range (final (run_conversion three_frame_world range_2_4_form)) = (2, 4)"
  "outcome (run_conversion three_frame_world range_2_4_form) = Returns True"
  "image_writes (effects (run_conversion three_frame_world range_2_4_form)) =
     [(''out/labeled-data/video/frame_0002.png'', 2)]"
  by (simp_all add: gui_eval)

section \<open>The claims\<close>

subsection \<open>Keypoint vocabulary\<close>

text \<open>
  Claim C5.  For every export that parses, the keypoint vocabulary that
  \<open>parse_cvat_xml\<close> stores is the sorted, de-duplicated list of all box-derived names
  (\<open><label>_center\<close>) and point-derived names (the label) of all tracks; it is sorted
  and has no duplicates; and no later stage changes it: the object at the end of a
  run, wherever the run ends, in \<open>run_pipeline\<close> and in the front end's
  \<open>run_conversion\<close>, still holds that list.  A points record contributes its name
  when it carries a coordinate pair.
\<close>

theorem vocabulary_is_sorted_union:
  assumes "xml_parse w = XmlDocument doc"
  shows "\<exists>p. parse_cvat_xml (xml_parse w) init_pipeline = Some p \<and>
             bodyparts p = spec_vocabulary (tracks doc) \<and>
             sorted (bodyparts p) \<and> distinct (bodyparts p) \<and>
             set (bodyparts p) = set (concat (map keypoint_names (tracks doc))) \<and>
             bodyparts (final (run_pipeline w a)) = bodyparts p \<and>
             bodyparts (final (run_conversion w g)) = bodyparts p"
proof -
  obtain p where p: "parse_cvat_xml (xml_parse w) init_pipeline = Some p"
    and b: "bodyparts p = spec_vocabulary (tracks doc)"
    using assms by (simp add: parse_document)
  have "sorted (bodyparts p)" "distinct (bodyparts p)"
    "set (bodyparts p) = set (concat (map keypoint_names (tracks doc)))"
    unfolding b spec_vocabulary_def by simp_all
  with p b show ?thesis
    using run_pipeline_final(1) [OF p] run_conversion_final(1) [OF p] by blast
qed

theorem vocabulary_is_sorted_union_witness:
  "xml_parse demo_world = XmlDocument demo_doc \<and>
   bodyparts (final (run_pipeline demo_world demo_args)) = [''Bee'', ''Queen_center'']"
proof -
  have x: "xml_parse demo_world = XmlDocument demo_doc" by (simp add: demo_world_def)
  have v: "spec_vocabulary (tracks demo_doc) = [''Bee'', ''Queen_center'']"
    by (simp add: demo_doc_def spec_vocabulary_def keypoint_names_def)
  from vocabulary_is_sorted_union [OF x, of demo_args range_2_4_form]
  obtain p :: pipeline where "bodyparts p = spec_vocabulary (tracks demo_doc)"
    and "bodyparts (final (run_pipeline demo_world demo_args)) = bodyparts p"
    by (elim exE conjE)
  with x v show ?thesis by simp
qed

subsection \<open>Colliding keypoint names\<close>

text \<open>
  Claim C10.  A frame annotation holds at most one coordinate pair per keypoint name
  (its keys are distinct), and when two shapes contribute the same name to the same
  frame, the one that comes later wins: parsing succeeds, without any error, and the
  index holds the later pair, so the earlier one is lost.
\<close>

theorem later_shape_overwrites:
  assumes "contributions (tracks doc) = pre @ ((f, k), early) # mid @ ((f, k), late) # post"
    and "(f, k) \<notin> fst ` set post"
  shows "\<exists>p. parse_cvat_xml (XmlDocument doc) self = Some p \<and>
             wf_index (annotations p) \<and>
             lookup_keypoint (annotations p) f k = Some late"
proof -
  have "map_of (rev (contributions (tracks doc))) (f, k) = Some late"
    using assms by (rule map_of_rev_last)
  then show ?thesis
    by (simp add: parse_document lookup_process_tracks wf_process_tracks)
qed

theorem later_shape_overwrites_witness:
  "contributions (tracks demo_doc) =
     [] @ ((5, ''Bee''), (12, 8)) # [] @ ((5, ''Bee''), (20, 30)) # [((5, ''Queen_center''), (5, 10))] \<and>
   (5, ''Bee'') \<notin> fst ` set [((5, ''Queen_center''), (5 :: real, 10 :: real))] \<and>
   (\<exists>p. parse_cvat_xml (XmlDocument demo_doc) init_pipeline = Some p \<and>
        wf_index (annotations p) \<and>
        lookup_keypoint (annotations p) 5 ''Bee'' = Some (20, 30))"
proof -
  have c: "contributions (tracks demo_doc) =
     [] @ ((5, ''Bee''), (12, 8)) # [] @ ((5, ''Bee''), (20, 30)) # [((5, ''Queen_center''), (5, 10))]"
    by (simp add: demo_doc_def contributions_def track_contributions_def box_contribution_def
        point_contribution_def)
  have n: "(5, ''Bee'') \<notin> fst ` set [((5, ''Queen_center''), (5 :: real, 10 :: real))]"
    by simp
  show ?thesis
    by (intro conjI) (rule c, rule n, rule later_shape_overwrites [OF c n])
qed

subsection \<open>Frame extraction writes the window\<close>

lemma fmt_04d_four_digits:
  assumes "0 \<le> i" and "i < 10000"
  shows "fmt_04d i = four_digits (nat i)"
proof -
  define n where "n = nat i"
  have n: "n < 10000" using assms by (simp add: n_def)
  have f: "fmt_04d i = zero_pad 4 (dec_nat n)"
    using assms by (simp add: fmt_04d_def n_def)
  consider (one) "n < 10" | (two) "10 \<le> n" "n < 100" | (three) "100 \<le> n" "n < 1000"
    | (four) "1000 \<le> n"
    by linarith
  then have "zero_pad 4 (dec_nat n) = four_digits n"
  proof cases
    case one
    then show ?thesis
      by (simp add: dec_nat_small zero_pad_def four_digits_def digit_char_def
          replicate_numeral)
  next
    case two
    then have d: "n div 10 < 10" "n div 100 = 0" "n div 1000 = 0" by simp_all
    from two d have "dec_nat n = [digit_char (n div 10), digit_char (n mod 10)]"
      by (simp add: dec_nat_large [of n] dec_nat_small)
    with d show ?thesis
      by (simp add: zero_pad_def four_digits_def digit_char_def replicate_numeral)
  next
    case three
    then have d: "n div 100 < 10" "\<not> n div 10 < 10" "n div 1000 = 0"
      "n div 10 div 10 = n div 100"
      by (simp_all add: div_mult2_eq [symmetric])
    from three d have "dec_nat n =
        [digit_char (n div 100), digit_char (n div 10 mod 10), digit_char (n mod 10)]"
      by (simp add: dec_nat_large [of n] dec_nat_large [of "n div 10"] dec_nat_small)
    with d show ?thesis
      by (simp add: zero_pad_def four_digits_def digit_char_def replicate_numeral)
  next
    case four
    with n have d: "n div 1000 < 10" "\<not> n div 100 < 10" "\<not> n div 10 < 10"
      "n div 10 div 10 = n div 100" "n div 100 div 10 = n div 1000"
      by (simp_all add: div_mult2_eq [symmetric])
    from four d have "dec_nat n =
        [digit_char (n div 1000), digit_char (n div 100 mod 10),
         digit_char (n div 10 mod 10), digit_char (n mod 10)]"
      by (simp add: dec_nat_large [of n] dec_nat_large [of "n div 10"]
          dec_nat_large [of "n div 100"] dec_nat_small)
    with d show ?thesis
      by (simp add: zero_pad_def four_digits_def digit_char_def)
  qed
  with f show ?thesis by (simp add: n_def)
qed

lemma digit_char_digit: "d < 10 \<Longrightarrow> digit_char d \<in> set ''0123456789''"
  using less_10_cases [of d] by (auto simp add: digit_char_def)

lemma dec_nat_digits: "set (dec_nat n) \<subseteq> set ''0123456789''"
proof (induction n rule: dec_nat.induct)
  case (1 n)
  show ?case
  proof (cases "n < 10")
    case True
    then show ?thesis
      using digit_char_digit [of n] by (simp add: dec_nat_small)
  next
    case False
    with 1 show ?thesis
      using digit_char_digit [of "n mod 10"] by (simp add: dec_nat_large)
  qed
qed

lemma digit_char_not_zero: "0 < d \<Longrightarrow> d < 10 \<Longrightarrow> digit_char d \<noteq> CHR ''0''"
  using less_10_cases [of d] by (auto simp add: digit_char_def)

lemma hd_dec_nat: "0 < n \<Longrightarrow> hd (dec_nat n) \<noteq> CHR ''0''"
proof (induction n rule: dec_nat.induct)
  case (1 n)
  show ?case
  proof (cases "n < 10")
    case True
    with 1(2) show ?thesis by (simp add: dec_nat_small digit_char_not_zero)
  next
    case False
    then have "0 < n div 10" by simp
    with 1(1) False have "hd (dec_nat (n div 10)) \<noteq> CHR ''0''" by simp
    with False show ?thesis by (simp add: dec_nat_large dec_nat_nonempty)
  qed
qed

lemma zero_pad_padded_decimal: "padded_decimal n (zero_pad 4 (dec_nat n))"
proof -
  have len: "4 \<le> length (zero_pad 4 (dec_nat n))" by (simp add: zero_pad_def)
  have digs: "set (zero_pad 4 (dec_nat n)) \<subseteq> set ''0123456789''"
    using dec_nat_digits [of n] by (auto simp add: zero_pad_def)
  have val: "dec_val (zero_pad 4 (dec_nat n)) = n"
    by (simp add: dec_val_zero_pad dec_val_dec_nat)
  have lead: "hd (zero_pad 4 (dec_nat n)) \<noteq> CHR ''0''" if l: "4 < length (zero_pad 4 (dec_nat n))"
  proof -
    from l have long: "4 < length (dec_nat n)" by (simp add: zero_pad_def split: if_splits)
    then have z: "zero_pad 4 (dec_nat n) = dec_nat n" by (simp add: zero_pad_def)
    have "0 < n"
    proof (rule ccontr)
      assume "\<not> 0 < n"
      then have "dec_nat n = [digit_char 0]" by (simp add: dec_nat_small)
      with long show False by simp
    qed
    then show ?thesis unfolding z by (rule hd_dec_nat)
  qed
  show ?thesis
    unfolding padded_decimal_def using len digs val lead by simp
qed

text \<open>Every frame number is padded with zeros to at least four digits.\<close>

lemma frame_filename_padded:
  "0 \<le> i \<Longrightarrow> \<exists>ds. frame_filename i = ''frame_'' @ ds @ ''.png'' \<and> padded_decimal (nat i) ds"
  by (rule exI [of _ "zero_pad 4 (dec_nat (nat i))"])
     (simp add: frame_filename_def fmt_04d_def zero_pad_padded_decimal)

text \<open>Frame numbers below 10000 are padded with zeros to four digits.\<close>

lemma frame_filename_four_digits:
  "0 \<le> i \<Longrightarrow> i < 10000 \<Longrightarrow> frame_filename i = ''frame_'' @ four_digits (nat i) @ ''.png''"
  by (simp add: frame_filename_def fmt_04d_four_digits)

text \<open>
  Claim C4.  For every window \<open>[s, e]\<close> and every video that opens, frame extraction
  succeeds and decodes from frame index 0: the images it writes are exactly the files
  \<open>frame_<i>.png\<close> for the indices \<open>i\<close> with \<open>s \<le> i \<le> e\<close> that the decoder
  reaches, each holding frame \<open>i\<close> of the video; the name of an index below 10000 is
  \<open>frame_\<close>, the index written with four decimal digits, zeros in front, and
  \<open>.png\<close>, and a larger index is written in full; no file is written for an index outside the window; and it stops reading
  once the frame counter exceeds \<open>e\<close>, that is after \<open>e + 1\<close> frames or at the end of
  the video, whichever comes first (for \<open>e \<ge> 0\<close>, as in every window; the loop tests
  the counter after a read, so it always attempts one).
\<close>

theorem extraction_writes_exactly_the_window:
  assumes "capture w = Opened n f wd h frames" and "frame_range self = (s, e)"
  shows "snd (extract_frames w vf out self) = True \<and>
         set (image_writes (fst (extract_frames w vf out self))) =
           {(pjoin (frames_dir w out vf) (frame_filename i), frames ! nat i) | i.
              s \<le> i \<and> i \<le> e \<and> 0 \<le> i \<and> i < int (length frames)} \<and>
         (\<forall>i. s \<le> i \<and> i \<le> e \<and> 0 \<le> i \<and> i < int (length frames) \<and> i < 10000 \<longrightarrow>
              (pjoin (frames_dir w out vf) (''frame_'' @ four_digits (nat i) @ ''.png''),
               frames ! nat i) \<in> set (image_writes (fst (extract_frames w vf out self)))) \<and>
         (\<forall>i. 0 \<le> i \<and> i < 10000 \<longrightarrow>
              frame_filename i = ''frame_'' @ four_digits (nat i) @ ''.png'') \<and>
         (\<forall>i. 0 \<le> i \<longrightarrow>
              (\<exists>ds. frame_filename i = ''frame_'' @ ds @ ''.png'' \<and>
                    padded_decimal (nat i) ds)) \<and>
         (\<forall>j. j < s \<or> e < j \<longrightarrow>
              pjoin (frames_dir w out vf) (frame_filename j) \<notin>
                fst ` set (image_writes (fst (extract_frames w vf out self)))) \<and>
         (0 \<le> e \<longrightarrow>
            frames_read (fst (extract_frames w vf out self)) = min (length frames) (nat e + 1))"
proof -
  note ex = extract_frames_opened [OF assms, of vf out]
  have imgs: "set (image_writes (fst (extract_frames w vf out self))) =
           {(pjoin (frames_dir w out vf) (frame_filename i), frames ! nat i) | i.
              s \<le> i \<and> i \<le> e \<and> 0 \<le> i \<and> i < int (length frames)}"
    unfolding ex(2) by auto
  have names: "frame_filename i = ''frame_'' @ four_digits (nat i) @ ''.png''"
    if "0 \<le> i \<and> i < 10000" for i
    using that by (simp add: frame_filename_four_digits)
  have padded: "(pjoin (frames_dir w out vf) (''frame_'' @ four_digits (nat i) @ ''.png''),
               frames ! nat i) \<in> set (image_writes (fst (extract_frames w vf out self)))"
    if i: "s \<le> i \<and> i \<le> e \<and> 0 \<le> i \<and> i < int (length frames) \<and> i < 10000" for i
  proof -
    from i have "frame_filename i = ''frame_'' @ four_digits (nat i) @ ''.png''"
      by (simp add: frame_filename_four_digits)
    then have "(pjoin (frames_dir w out vf) (''frame_'' @ four_digits (nat i) @ ''.png''),
               frames ! nat i) = (pjoin (frames_dir w out vf) (frame_filename i), frames ! nat i)"
      by simp
    moreover have "(pjoin (frames_dir w out vf) (frame_filename i), frames ! nat i) \<in>
        set (image_writes (fst (extract_frames w vf out self)))"
      unfolding imgs using i by blast
    ultimately show ?thesis by simp
  qed
  have outside: "pjoin (frames_dir w out vf) (frame_filename j) \<notin>
                fst ` set (image_writes (fst (extract_frames w vf out self)))"
    if "j < s \<or> e < j" for j
    using that unfolding imgs by (auto simp add: pjoin_inj frame_filename_inj)
  have reads: "frames_read (fst (extract_frames w vf out self)) = min (length frames) (nat e + 1)"
    if "0 \<le> e"
    using that unfolding ex(3) by (auto simp add: min_def max_def nat_add_distrib)
  show ?thesis
    by (intro conjI allI impI)
       (rule ex(1), rule imgs, erule padded, erule names, erule frame_filename_padded,
        erule outside, erule reads)
qed

theorem extraction_writes_exactly_the_window_witness:
  "capture demo_world = Opened 10 25 640 480 [0, 1, 2, 3, 4, 5, 6, 7, 8, 9] \<and>
   frame_range (init_pipeline\<lparr>frame_range := (2, 4)\<rparr>) = (2, 4) \<and>
   snd (extract_frames demo_world ''video.mp4'' ''out'' (init_pipeline\<lparr>frame_range := (2, 4)\<rparr>)) = True \<and>
   (''out/labeled-data/video/frame_0003.png'', 3) \<in>
     set (image_writes (fst (extract_frames demo_world ''video.mp4'' ''out''
            (init_pipeline\<lparr>frame_range := (2, 4)\<rparr>)))) \<and>
   frame_filename 42 = ''frame_0042.png'' \<and>
   (\<exists>ds. frame_filename 12345 = ''frame_'' @ ds @ ''.png'' \<and> padded_decimal 12345 ds) \<and>
   pjoin (frames_dir demo_world ''out'' ''video.mp4'') (frame_filename 5) \<notin>
     fst ` set (image_writes (fst (extract_frames demo_world ''video.mp4'' ''out''
                  (init_pipeline\<lparr>frame_range := (2, 4)\<rparr>)))) \<and>
   frames_read (fst (extract_frames demo_world ''video.mp4'' ''out''
                  (init_pipeline\<lparr>frame_range := (2, 4)\<rparr>))) = 5"
proof -
  let ?self = "init_pipeline\<lparr>frame_range := (2, 4)\<rparr>"
  let ?effs = "fst (extract_frames demo_world ''video.mp4'' ''out'' ?self)"
  have c: "capture demo_world = Opened 10 25 640 480 [0, 1, 2, 3, 4, 5, 6, 7, 8, 9]"
    by (simp add: demo_world_def)
  have r: "frame_range ?self = (2, 4)" by simp
  note t = extraction_writes_exactly_the_window [OF c r, of "''video.mp4''" "''out''"]
  from t have ok: "snd (extract_frames demo_world ''video.mp4'' ''out'' ?self) = True"
    by (elim conjE)
  from t have padded: "\<forall>i. 2 \<le> i \<and> i \<le> 4 \<and> 0 \<le> i \<and>
        i < int (length [0::nat, 1, 2, 3, 4, 5, 6, 7, 8, 9]) \<and> i < 10000 \<longrightarrow>
      (pjoin (frames_dir demo_world ''out'' ''video.mp4'')
         (''frame_'' @ four_digits (nat i) @ ''.png''),
       [0::nat, 1, 2, 3, 4, 5, 6, 7, 8, 9] ! nat i) \<in> set (image_writes ?effs)"
    by (elim conjE)
  from t have names: "\<forall>i. 0 \<le> i \<and> i < 10000 \<longrightarrow>
      frame_filename i = ''frame_'' @ four_digits (nat i) @ ''.png''"
    by (elim conjE)
  from t have outside: "\<forall>j. j < 2 \<or> 4 < j \<longrightarrow>
      pjoin (frames_dir demo_world ''out'' ''video.mp4'') (frame_filename j) \<notin>
        fst ` set (image_writes ?effs)"
    by (elim conjE)
  from t have reads: "(0::int) \<le> 4 \<longrightarrow>
      frames_read ?effs = min (length [0::nat, 1, 2, 3, 4, 5, 6, 7, 8, 9]) (nat 4 + 1)"
    by (elim conjE)
  have three: "(''out/labeled-data/video/frame_0003.png'', 3) \<in> set (image_writes ?effs)"
    using padded [rule_format, of 3]
    by (simp add: four_digits_def frames_dir_def pjoin_def demo_world_def)
  have name42: "frame_filename 42 = ''frame_0042.png''"
    using names [rule_format, of 42] by (simp add: four_digits_def)
  from t have full: "\<forall>i. 0 \<le> i \<longrightarrow>
      (\<exists>ds. frame_filename i = ''frame_'' @ ds @ ''.png'' \<and> padded_decimal (nat i) ds)"
    by (elim conjE)
  have big: "\<exists>ds. frame_filename 12345 = ''frame_'' @ ds @ ''.png'' \<and> padded_decimal 12345 ds"
    using full [rule_format, of 12345] by simp
  have five: "pjoin (frames_dir demo_world ''out'' ''video.mp4'') (frame_filename 5) \<notin>
        fst ` set (image_writes ?effs)"
    using outside [rule_format, of 5] by simp
  have count: "frames_read ?effs = 5" using reads by simp
  show ?thesis
    by (intro conjI) (rule c, rule r, rule ok, rule three, rule name42, rule big, rule five,
      rule count)
qed

subsection \<open>Table rows and extracted images\<close>

text \<open>
  When the decoder delivers every frame that the table gives a row to, every data row
  of the table names an image that frame extraction wrote in that run.
\<close>

lemma table_rows_name_extracted_images:
  assumes "capture w = Opened n f wd h frames"
    and "\<forall>i \<in> set (valid_frames (annotations (final (run_pipeline w a)))
                    (frame_range (final (run_pipeline w a)))). i < int (length frames)"
  shows "set (table_images (output_dir a) (effects (run_pipeline w a))) \<subseteq>
         fst ` set (image_writes (effects (run_pipeline w a)))"
proof (cases rule: run_pipeline_cases [of w a])
  case stopped
  then show ?thesis by (simp add: table_images_def)
next
  case (outputs doc n' f' wd' h' frames' self)
  obtain s e where r: "frame_range self = (s, e)" by (cases "frame_range self")
  have nonneg: "0 \<le> s" using outputs(9) r by simp
  have imgs: "set (image_writes (effects (run_pipeline w a))) =
         {(pjoin (frames_dir w (output_dir a) (video_file_arg a)) (frame_filename i), frames ! nat i) | i.
            0 \<le> i \<and> s \<le> i \<and> i \<le> e \<and> i < int (length frames)}"
    unfolding outputs(4) image_writes_run_outputs
    by (rule extract_frames_opened(2) [OF assms(1) r])
  have rows: "set (table_images (output_dir a) (effects (run_pipeline w a))) \<subseteq>
         (\<lambda>i. pjoin (frames_dir w (output_dir a) (video_file_arg a)) (frame_filename i)) `
           set (valid_frames (annotations self) (frame_range self))"
    unfolding outputs(4) by (rule table_images_run_outputs [OF outputs(6) assms(1)])
  show ?thesis
  proof
    fix p assume "p \<in> set (table_images (output_dir a) (effects (run_pipeline w a)))"
    with rows obtain i where i: "i \<in> set (valid_frames (annotations self) (frame_range self))"
      and p: "p = pjoin (frames_dir w (output_dir a) (video_file_arg a)) (frame_filename i)"
      by blast
    from i r have "s \<le> i" "i \<le> e" by (simp_all add: valid_frames_set)
    moreover from i have "i < int (length frames)" using assms(2) outputs(3) by simp
    ultimately have "(p, frames ! nat i) \<in> set (image_writes (effects (run_pipeline w a)))"
      using nonneg unfolding imgs p by auto
    then show "p \<in> fst ` set (image_writes (effects (run_pipeline w a)))"
      by (rule image_eqI [rotated]) simp
  qed
qed

text \<open>
  Claim C1 (every data row of the table names an image that frame extraction wrote in
  that run, also when the decode is exhausted before the end of the window) fails.
  The backend reports ten frames and delivers three, the export annotates frame 5,
  and all frames are selected.  \<open>extract_frames\<close> stops at the end of the stream and
  reports success with the images of frames 0 to 2; \<open>create_deeplabcut_csv\<close> takes its
  rows from the annotation index and the window and does not look at what was
  extracted; the run reports success with a table whose only row names
  \<open>frame_0005.png\<close>, an image that was never written.  With all ten frames delivered
  the same table is written and its row names an image of the run.
\<close>

theorem table_names_image_never_extracted:
  "outcome (run_pipeline short_video_world demo_args) = Returns True \<and>
   frame_range (final (run_pipeline short_video_world demo_args)) = (0, 9) \<and>
   table_images ''out'' (effects (run_pipeline short_video_world demo_args)) =
     [''out/labeled-data/video/frame_0005.png''] \<and>
   map fst (image_writes (effects (run_pipeline short_video_world demo_args))) =
     [''out/labeled-data/video/frame_0000.png'', ''out/labeled-data/video/frame_0001.png'',
      ''out/labeled-data/video/frame_0002.png''] \<and>
   ''out/labeled-data/video/frame_0005.png'' \<notin>
     fst ` set (image_writes (effects (run_pipeline short_video_world demo_args))) \<and>
   table_images ''out'' (effects (run_pipeline demo_world demo_args)) =
     [''out/labeled-data/video/frame_0005.png''] \<and>
   (''out/labeled-data/video/frame_0005.png'', 5) \<in>
     set (image_writes (effects (run_pipeline demo_world demo_args)))"
proof -
  have short: "outcome (run_pipeline short_video_world demo_args) = Returns True \<and>
   frame_range (final (run_pipeline short_video_world demo_args)) = (0, 9) \<and>
   table_images ''out'' (effects (run_pipeline short_video_world demo_args)) =
     [''out/labeled-data/video/frame_0005.png''] \<and>
   map fst (image_writes (effects (run_pipeline short_video_world demo_args))) =
     [''out/labeled-data/video/frame_0000.png'', ''out/labeled-data/video/frame_0001.png'',
      ''out/labeled-data/video/frame_0002.png''] \<and>
   ''out/labeled-data/video/frame_0005.png'' \<notin>
     fst ` set (image_writes (effects (run_pipeline short_video_world demo_args)))"
    by (simp add: short_video_run observe_eval pjoin_def)
  have t: "table_images ''out'' (effects (run_pipeline demo_world demo_args)) =
     [''out/labeled-data/video/frame_0005.png'']"
    by (simp add: run_eval observe_eval)
  have i: "(''out/labeled-data/video/frame_0005.png'', 5) \<in>
     set (image_writes (effects (run_pipeline demo_world demo_args)))"
    by (simp add: run_eval)
  from short t i show ?thesis by simp
qed

subsection \<open>One table row per frame of the annotation index\<close>

text \<open>
  Claim C2, as stated, fails: a points record on frame 3 with an empty \<^verbatim>\<open>points\<close>
  attribute leaves the entry of frame 3 in the annotation index without any keypoint.
  No frame of the window has a keypoint, yet the table gets the row of
  \<open>frame_0003.png\<close>, the descriptor is written and the run reports success.
\<close>

theorem row_for_frame_without_keypoints_counterexample:
  "annotations (final (run_pipeline empty_points_world demo_args)) = [(3, [])] \<and>
   frames_with_keypoints (annotations (final (run_pipeline empty_points_world demo_args)))
     (frame_range (final (run_pipeline empty_points_world demo_args))) = [] \<and>
   table_images ''out'' (effects (run_pipeline empty_points_world demo_args)) =
     [''out/labeled-data/video/frame_0003.png''] \<and>
   map fst (texts_written (effects (run_pipeline empty_points_world demo_args))) =
     [''out/config.yaml''] \<and>
   outcome (run_pipeline empty_points_world demo_args) = Returns True"
  by (simp add: empty_points_run observe_eval pjoin_def frames_with_keypoints_def)

text \<open>
  Claim C2, amended.  For every annotation index, vocabulary and window \<open>[s, e]\<close>, the
  table has exactly one data row per frame index in \<open>[s, e]\<close> that has an entry in the
  annotation index, in ascending order; every frame of the window with at least one
  keypoint is among them, and a frame of the window without an entry gets no row.  If
  no frame of the window has an entry, table assembly reports failure, writes no
  table, and the run ends with failure before the descriptor is written.
\<close>

theorem table_has_one_row_per_indexed_frame:
  assumes "distinct (map fst (annotations self))"
    and "video_file (video_info self) = Some vf"
    and "frame_range self = (s, e)"
  shows "set (frames_with_keypoints (annotations self) (s, e)) \<subseteq>
           {f \<in> fst ` set (annotations self). s \<le> f \<and> f \<le> e} \<and>
         (sorted_list_of_set {f \<in> fst ` set (annotations self). s \<le> f \<and> f \<le> e} \<noteq> [] \<and>
          writable w (csv_path w (output_dir a) vf (scorer a)) \<longrightarrow>
            snd (create_deeplabcut_csv w (output_dir a) (scorer a) self) = Returns True \<and>
            map fst (tables_written (fst (create_deeplabcut_csv w (output_dir a) (scorer a) self))) =
              [csv_path w (output_dir a) vf (scorer a)] \<and>
            map row_image
              (concat (map (\<lambda>pt. data_rows (snd pt))
                 (tables_written (fst (create_deeplabcut_csv w (output_dir a) (scorer a) self))))) =
              map frame_filename
                (sorted_list_of_set {f \<in> fst ` set (annotations self). s \<le> f \<and> f \<le> e})) \<and>
         (sorted_list_of_set {f \<in> fst ` set (annotations self). s \<le> f \<and> f \<le> e} = [] \<longrightarrow>
            snd (create_deeplabcut_csv w (output_dir a) (scorer a) self) = Returns False \<and>
            tables_written (fst (create_deeplabcut_csv w (output_dir a) (scorer a) self)) = [] \<and>
            snd (run_outputs w a self) = Returns False \<and>
            texts_written (fst (run_outputs w a self)) = [])"
proof -
  let ?keys = "sorted_list_of_set {f \<in> fst ` set (annotations self). s \<le> f \<and> f \<le> e}"
  let ?csv = "create_deeplabcut_csv w (output_dir a) (scorer a) self"
  have vf: "valid_frames (annotations self) (frame_range self) = ?keys"
    using valid_frames_sorted_list [OF assms(1), of "(s, e)"] assms(3) by simp
  note csv = create_csv_table [OF assms(2), of w "output_dir a" "scorer a", unfolded vf]
  have sub: "set (frames_with_keypoints (annotations self) (s, e)) \<subseteq>
           {f \<in> fst ` set (annotations self). s \<le> f \<and> f \<le> e}"
    using frames_with_keypoints_subset [of "annotations self" "(s, e)"]
    by (simp add: valid_frames_set)
  have rows: "map row_image (map (data_row (path_stem w vf) (bodyparts self) (annotations self)) ?keys) =
      map frame_filename ?keys"
    by (simp add: row_image_data_row comp_def)
  have some: "snd ?csv = Returns True \<and>
            map fst (tables_written (fst ?csv)) = [csv_path w (output_dir a) vf (scorer a)] \<and>
            map row_image (concat (map (\<lambda>pt. data_rows (snd pt)) (tables_written (fst ?csv)))) =
              map frame_filename ?keys"
    if "?keys \<noteq> []" "writable w (csv_path w (output_dir a) vf (scorer a))"
    using that rows by (simp add: csv data_rows_table)
  have none: "snd ?csv = Returns False \<and> tables_written (fst ?csv) = [] \<and>
            snd (run_outputs w a self) = Returns False \<and>
            texts_written (fst (run_outputs w a self)) = []"
    if k: "?keys = []"
  proof -
    have c: "snd ?csv = Returns False" and t: "tables_written (fst ?csv) = []"
      using k by (simp_all add: csv)
    have "snd (run_outputs w a self) = Returns False"
      using c by (simp add: run_outputs_def Let_def)
    moreover have "texts_written (fst (run_outputs w a self)) = []"
      using c by (simp add: texts_written_run_outputs)
    ultimately show ?thesis using c t by simp
  qed
  show ?thesis using sub some none by blast
qed

theorem table_has_one_row_per_indexed_frame_witness:
  "distinct (map fst (annotations demo_state)) \<and>
   video_file (video_info demo_state) = Some ''video.mp4'' \<and>
   frame_range demo_state = (0, 9) \<and>
   sorted_list_of_set {f \<in> fst ` set (annotations demo_state). 0 \<le> f \<and> f \<le> 9} = [5] \<and>
   writable demo_world (csv_path demo_world (output_dir demo_args) ''video.mp4'' (scorer demo_args)) \<and>
   snd (create_deeplabcut_csv demo_world (output_dir demo_args) (scorer demo_args) demo_state) =
     Returns True \<and>
   map row_image
     (concat (map (\<lambda>pt. data_rows (snd pt))
        (tables_written
           (fst (create_deeplabcut_csv demo_world (output_dir demo_args) (scorer demo_args)
                   demo_state))))) =
     [''frame_0005.png'']"
proof -
  have d: "distinct (map fst (annotations demo_state))" by (simp add: demo_state_def)
  have v: "video_file (video_info demo_state) = Some ''video.mp4''"
    by (simp add: demo_state_def)
  have r: "frame_range demo_state = (0, 9)" by (simp add: demo_state_def)
  have wr: "writable demo_world
      (csv_path demo_world (output_dir demo_args) ''video.mp4'' (scorer demo_args))"
    by (simp add: demo_world_def)
  have k: "sorted_list_of_set {f \<in> fst ` set (annotations demo_state). 0 \<le> f \<and> f \<le> 9} = [5]"
    using valid_frames_sorted_list [OF d, of "(0, 9)"]
    by (simp add: demo_state_def valid_frames_def)
  note t = table_has_one_row_per_indexed_frame
    [OF d v r, where w = demo_world and a = demo_args, unfolded k]
  from t wr have ok:
    "snd (create_deeplabcut_csv demo_world (output_dir demo_args) (scorer demo_args) demo_state) =
       Returns True"
    by simp
  from t wr have rows: "map row_image
     (concat (map (\<lambda>pt. data_rows (snd pt))
        (tables_written
           (fst (create_deeplabcut_csv demo_world (output_dir demo_args) (scorer demo_args)
                   demo_state))))) =
     [''frame_0005.png'']"
    by (simp add: fmt_eval)
  show ?thesis
    by (intro conjI) (rule d, rule v, rule r, rule k, rule wr, rule ok, rule rows)
qed

subsection \<open>Validation of a requested range\<close>

text \<open>
  At the prompt of \<open>interactive_frame_selection\<close> a pair of numbers is taken if and
  only if it satisfies the window condition against the probed frame count;
  otherwise the prompt asks again, and nothing runs before a pair is taken.
\<close>

lemma prompt_checks_window:
  assumes "to_int a = Some start_f" and "to_int b = Some end_f"
  shows "range_prompt to_int (n - 1) (a # b # rest) =
         (if valid_window n (start_f, end_f) then Some (start_f, end_f)
          else range_prompt to_int (n - 1) rest)"
  using assms by (simp add: valid_window_def)

lemma validate_inputs_range:
  "validate_inputs w g \<Longrightarrow> gui_frame_selection g = ''range'' \<Longrightarrow>
   0 \<le> gui_start_frame g \<and> gui_start_frame g \<le> gui_end_frame g"
  by (auto simp add: validate_inputs_def split: if_splits)

text \<open>
  Claim C3 (a range is accepted if and only if \<open>0 \<le> start \<le> end \<le> total_frames - 1\<close>,
  and any other pair is rejected before extraction runs) fails in the graphical front
  end.  With a video of three frames and the range 2 to 4 in the form,
  \<open>validate_inputs\<close> accepts, \<open>start_conversion\<close> runs the conversion, the window is
  set to \<open>(2, 4)\<close> although \<open>4 > total_frames - 1 = 2\<close>, extraction runs on it, and
  the conversion reports success.
\<close>

theorem form_accepts_range_beyond_video:
  "validate_inputs three_frame_world range_2_4_form \<and>
   start_conversion three_frame_world range_2_4_form =
     Some (run_conversion three_frame_world range_2_4_form) \<and>
   total_frames (video_info (final (run_conversion three_frame_world range_2_4_form))) = Some 3 \<and>
   frame_range (final (run_conversion three_frame_world range_2_4_form)) = (2, 4) \<and>
   \<not> valid_window 3 (2, 4) \<and>
   image_writes (effects (run_conversion three_frame_world range_2_4_form)) =
     [(''out/labeled-data/video/frame_0002.png'', 2)] \<and>
   outcome (run_conversion three_frame_world range_2_4_form) = Returns True"
  by (simp add: three_frame_conversion valid_window_def)

subsection \<open>Video probing\<close>

text \<open>
  Claim C6, as stated, fails: a video that opens and reports zero frames is probed
  successfully.  The run goes on with \<open>total_frames = 0\<close> and the window \<open>(0, -1)\<close>,
  and ends later, at table assembly.
\<close>

theorem zero_frame_video_counterexample:
  "capture zero_frames_world = Opened 0 25 640 480 [] \<and>
   snd (get_video_info (capture zero_frames_world) ''video.mp4'' init_pipeline) \<noteq> None \<and>
   total_frames (video_info (final (run_pipeline zero_frames_world demo_args))) = Some 0 \<and>
   frame_range (final (run_pipeline zero_frames_world demo_args)) = (0, - 1) \<and>
   prints (effects (run_pipeline zero_frames_world demo_args)) =
     [(Error, ''No annotation data found in frame range'')]"
  by (simp add: zero_frames_run) (simp add: zero_frames_world_def)

text \<open>
  Claim C6, amended.  Video probing fails if and only if the video cannot be opened or
  the backend raises; a video that opens is a probe success with the frame count the
  backend reports, whatever that count is.  When probing fails the run reports failure
  and has written no image, table or descriptor.
\<close>

theorem probe_fails_iff_video_unreadable:
  "(snd (get_video_info (capture w) vf self) = None \<longleftrightarrow>
      capture w = CannotOpen \<or> capture w = BackendError) \<and>
   (capture w = Opened n f wd h frames \<longrightarrow>
      (\<exists>self'. snd (get_video_info (capture w) vf self) = Some self' \<and>
         total_frames (video_info self') = Some n)) \<and>
   (capture w = CannotOpen \<or> capture w = BackendError \<longrightarrow>
      outcome (run_pipeline w a) = Returns False \<and>
      image_writes (effects (run_pipeline w a)) = [] \<and>
      tables_written (effects (run_pipeline w a)) = [] \<and>
      texts_written (effects (run_pipeline w a)) = [])"
proof -
  have probe: "snd (get_video_info (capture w) vf self) = None \<longleftrightarrow>
      capture w = CannotOpen \<or> capture w = BackendError"
    by (cases "capture w") (simp_all add: get_video_info_def)
  have opened: "\<exists>self'. snd (get_video_info (capture w) vf self) = Some self' \<and>
         total_frames (video_info self') = Some n"
    if "capture w = Opened n f wd h frames"
    using that by (simp add: get_video_info_def)
  have halt: "outcome (run_pipeline w a) = Returns False \<and>
      image_writes (effects (run_pipeline w a)) = [] \<and>
      tables_written (effects (run_pipeline w a)) = [] \<and>
      texts_written (effects (run_pipeline w a)) = []"
    if "capture w = CannotOpen \<or> capture w = BackendError"
  proof (cases "xml_parse w")
    case XmlParseError
    then show ?thesis by (simp add: run_pipeline_def parse_cvat_xml_def xml_errors_def)
  next
    case XmlFileNotFound
    then show ?thesis by (simp add: run_pipeline_def parse_cvat_xml_def xml_errors_def)
  next
    case (XmlDocument doc)
    with that show ?thesis
      by (auto simp add: run_pipeline_def parse_document get_video_info_def)
  qed
  show ?thesis using probe opened halt by blast
qed

theorem probe_fails_iff_video_unreadable_witness:
  "capture unreadable_video_world = CannotOpen \<and>
   snd (get_video_info (capture unreadable_video_world) ''video.mp4'' init_pipeline) = None \<and>
   outcome (run_pipeline unreadable_video_world demo_args) = Returns False \<and>
   capture demo_world = Opened 10 25 640 480 [0, 1, 2, 3, 4, 5, 6, 7, 8, 9] \<and>
   snd (get_video_info (capture demo_world) ''video.mp4'' init_pipeline) \<noteq> None"
proof -
  have c: "capture unreadable_video_world = CannotOpen"
    by (simp add: unreadable_video_world_def)
  have o: "capture demo_world = Opened 10 25 640 480 [0, 1, 2, 3, 4, 5, 6, 7, 8, 9]"
    by (simp add: demo_world_def)
  note t = probe_fails_iff_video_unreadable
    [of unreadable_video_world "''video.mp4''" init_pipeline 0 0 0 0 "[]" demo_args]
  note u = probe_fails_iff_video_unreadable
    [of demo_world "''video.mp4''" init_pipeline 10 25 640 480 "[0, 1, 2, 3, 4, 5, 6, 7, 8, 9]"
       demo_args]
  from t c have p: "snd (get_video_info (capture unreadable_video_world) ''video.mp4'' init_pipeline) = None"
    by simp
  from t c have r: "outcome (run_pipeline unreadable_video_world demo_args) = Returns False"
    by simp
  from u o have s: "snd (get_video_info (capture demo_world) ''video.mp4'' init_pipeline) \<noteq> None"
    by auto
  show ?thesis by (intro conjI) (rule c, rule p, rule r, rule o, rule s)
qed

subsection \<open>The dataset summary\<close>

text \<open>
  \<open>create_dataset_summary\<close> has no handler: when the summary file cannot be written
  the exception leaves the method, and \<open>run_pipeline\<close> calls it without a handler.
\<close>

lemma summary_failure_raises:
  "\<not> writable w (summary_path out) \<Longrightarrow>
   create_dataset_summary w out pr sc self = ([], Raises ''OSError'')"
  by (simp add: create_dataset_summary_def Let_def)

lemma reports_raise_with_summary:
  "\<not> writable w (summary_path (output_dir a)) \<Longrightarrow>
   snd (run_reports w a self) = Raises ''OSError''"
  by (simp add: run_reports_def Let_def summary_failure_raises)

text \<open>
  Claim C7 (a failure while writing the summary is logged and never aborts the run or
  changes its result) fails on the code.  With every stage succeeding and the summary
  file not writable, the table and the descriptor are written, nothing is logged, and
  \<open>run_pipeline\<close> does not return \<^verbatim>\<open>True\<close>: \<^verbatim>\<open>OSError\<close> escapes it.  In the graphical
  front end the same failure is caught by the handler around the whole conversion,
  which reports the conversion as failed.
\<close>

theorem summary_failure_aborts_the_run:
  "outcome (run_pipeline readonly_summary_world demo_args) = Raises ''OSError'' \<and>
   map fst (tables_written (effects (run_pipeline readonly_summary_world demo_args))) =
     [''out/labeled-data/video/CollectedData_manual.csv''] \<and>
   map fst (texts_written (effects (run_pipeline readonly_summary_world demo_args))) =
     [''out/config.yaml''] \<and>
   prints (effects (run_pipeline readonly_summary_world demo_args)) = [] \<and>
   outcome (run_pipeline demo_world demo_args) = Returns True \<and>
   outcome (run_conversion readonly_summary_world all_frames_form) = Returns False"
  by (simp add: readonly_summary_run readonly_summary_conversion) (simp add: run_eval)

subsection \<open>The converter step\<close>

lemma generate_h5_returns_true: "snd (generate_h5_file c) = True"
  by (simp add: generate_h5_file_def h5_method2_def h5_inline_def h5_method3_def Let_def
      split: import_result.splits run_result.splits)

lemma generate_h5_warns_when_absent:
  "converter_absent c \<Longrightarrow>
   (Warning, ''Cannot import deeplabcut, skipping h5 file generation'') \<in>
     set (prints (fst (generate_h5_file c)))"
  by (simp add: converter_absent_def generate_h5_file_def)

text \<open>
  The two child scripts differ.  When the library imports and every call raises, the
  helper script ends with status 1 and the inline script with status 0.
\<close>

lemma child_scripts_when_failing:
  assumes "library_fails l"
  shows "h5_converter_main cfg l = 1" and "inline_script l = 0"
  using assms
  by (simp_all add: library_fails_def h5_converter_main_def convert_csv_to_h5_auto_def
      inline_script_def)

lemma runs_when_failing:
  assumes "converter_fails c"
  shows "helper_exists c \<Longrightarrow> helper_run c = RunRaises \<or> helper_run c = Exit 1"
    and "inline_run c = RunRaises \<or> inline_run c = Exit 0"
  using assms
  by (auto simp add: converter_fails_def helper_run_def inline_run_def
      child_scripts_when_failing split: option.splits)

text \<open>
  What \<open>generate_h5_file\<close> does when every call of \<^verbatim>\<open>convertcsv2h5\<close> raises.  The last
  resort, with its warning, is reached only when a child process cannot be run; when
  the inline script runs, its status 0 is taken for a conversion.
\<close>

lemma generate_h5_when_failing:
  assumes "converter_fails c"
  shows "generate_h5_file c =
    (if helper_exists c then
       (case helper_child c of
          None \<Rightarrow> ([Print Warning ''H5 file generation encountered interactive prompt''], True)
        | Some l \<Rightarrow>
            (case inline_child c of
               None \<Rightarrow>
                 ([Print Warning ''H5 converter output'',
                   Print Warning ''H5 file generation encountered interactive prompt''], True)
             | Some l' \<Rightarrow> ([Print Warning ''H5 converter output''], True)))
     else
       (case inline_child c of
          None \<Rightarrow> ([Print Warning ''H5 file generation encountered interactive prompt''], True)
        | Some l \<Rightarrow> ([], True)))"
  using assms
  by (auto simp add: converter_fails_def generate_h5_file_def h5_method2_def h5_inline_def
      h5_method3_def helper_run_def inline_run_def child_scripts_when_failing Let_def
      split: option.splits)

lemma generate_h5_silent_when_failing:
  assumes "converter_fails c" and "\<not> helper_exists c" and "inline_child c = Some l"
  shows "generate_h5_file c = ([], True)"
  using generate_h5_when_failing [OF assms(1)] assms(2,3) by simp

text \<open>No other stage looks at the converter.\<close>

lemma stages_ignore_converter:
  "interactive_frame_selection (w\<lparr>converter := c\<rparr>) self = interactive_frame_selection w self"
  "extract_frames (w\<lparr>converter := c\<rparr>) vf out self = extract_frames w vf out self"
  "create_deeplabcut_csv (w\<lparr>converter := c\<rparr>) out sc self = create_deeplabcut_csv w out sc self"
  "create_deeplabcut_config (w\<lparr>converter := c\<rparr>) out pr sc self =
     create_deeplabcut_config w out pr sc self"
  "copy_video_to_project (w\<lparr>converter := c\<rparr>) vf out = copy_video_to_project w vf out"
  "create_dataset_summary (w\<lparr>converter := c\<rparr>) out pr sc self =
     create_dataset_summary w out pr sc self"
  by (simp_all add: interactive_frame_selection_def extract_frames_def create_deeplabcut_csv_def
      create_deeplabcut_config_def copy_video_to_project_def create_dataset_summary_def
      frames_dir_def csv_path_def Let_def split: option.splits)

lemma run_reports_ignore_converter:
  "snd (run_reports (w\<lparr>converter := c\<rparr>) a self) = snd (run_reports w a self)"
  "tables_written (fst (run_reports (w\<lparr>converter := c\<rparr>) a self)) = []"
  "texts_written (fst (run_reports (w\<lparr>converter := c\<rparr>) a self)) = []"
  by (simp_all add: run_reports_def Let_def stages_ignore_converter tables_written_append
      texts_written_append generate_h5_only_prints summary_writes_nothing_else)

lemma run_outputs_ignore_converter:
  "snd (run_outputs (w\<lparr>converter := c\<rparr>) a self) = snd (run_outputs w a self)"
  "tables_written (fst (run_outputs (w\<lparr>converter := c\<rparr>) a self)) =
     tables_written (fst (run_outputs w a self))"
  "texts_written (fst (run_outputs (w\<lparr>converter := c\<rparr>) a self)) =
     texts_written (fst (run_outputs w a self))"
  by (simp_all add: tables_written_run_outputs texts_written_run_outputs stages_ignore_converter)
     (simp add: run_outputs_def Let_def stages_ignore_converter run_reports_ignore_converter)

text \<open>
  The result of a run, the table and the descriptor are the same whatever the
  converter does: the converter step never makes a run fail.
\<close>

lemma run_pipeline_ignores_converter:
  "outcome (run_pipeline (w\<lparr>converter := c\<rparr>) a) = outcome (run_pipeline w a)"
  "tables_written (effects (run_pipeline (w\<lparr>converter := c\<rparr>) a)) =
     tables_written (effects (run_pipeline w a))"
  "texts_written (effects (run_pipeline (w\<lparr>converter := c\<rparr>) a)) =
     texts_written (effects (run_pipeline w a))"
  by (simp_all add: run_pipeline_def Let_def stages_ignore_converter
      run_outputs_ignore_converter tables_written_append texts_written_append
      split: option.splits outcome.splits)

text \<open>
  Claim C8 (any degradation of the converter call, the library absent or the call
  failing, is downgraded to a logged warning and the run still reports success) fails
  in its first half.  The library imports, every call of \<^verbatim>\<open>convertcsv2h5\<close> raises and
  \<^verbatim>\<open>h5_converter.py\<close> is not beside the module: the first attempt raises, the inline
  script catches the exception of its own attempt and ends with status 0, and
  \<open>generate_h5_file\<close> takes that status for a conversion.  It returns \<^verbatim>\<open>True\<close> without a
  warning, the last resort and its warning are never reached, and the run reports
  success with no warning or error logged, as a run with a working converter does.
  The helper script, on the same library, ends with status 1, and with it present the
  run logs a warning; with the library absent the run logs the warning of the
  missing library.
\<close>

theorem failed_conversion_logs_no_warning:
  "converter_fails failing_converter_no_helper \<and>
   h5_converter_main True failing_library = 1 \<and>
   inline_script failing_library = 0 \<and>
   generate_h5_file failing_converter_no_helper = ([] :: nat effect list, True) \<and>
   outcome (run_pipeline failing_no_helper_world demo_args) = Returns True \<and>
   prints (effects (run_pipeline failing_no_helper_world demo_args)) = [] \<and>
   prints (effects (run_pipeline demo_world demo_args)) = [] \<and>
   outcome (run_pipeline failing_world demo_args) = Returns True \<and>
   prints (effects (run_pipeline failing_world demo_args)) =
     [(Warning, ''H5 converter output'')] \<and>
   outcome (run_pipeline no_library_world demo_args) = Returns True \<and>
   prints (effects (run_pipeline no_library_world demo_args)) =
     [(Warning, ''Cannot import deeplabcut, skipping h5 file generation'')]"
proof -
  have f: "converter_fails failing_converter_no_helper"
    by (simp add: converter_fails_def library_fails_def world_eval)
  have h: "h5_converter_main True failing_library = 1"
    by (simp add: h5_converter_main_def convert_csv_to_h5_auto_def failing_library_def)
  have i: "inline_script failing_library = 0"
    by (simp add: inline_script_def failing_library_def)
  have g: "generate_h5_file failing_converter_no_helper = ([] :: nat effect list, True)"
    by (simp add: stage_eval world_eval)
  have r1: "outcome (run_pipeline failing_no_helper_world demo_args) = Returns True"
    by (simp add: run_eval)
  have p1: "prints (effects (run_pipeline failing_no_helper_world demo_args)) = []"
    by (simp add: run_eval)
  have p0: "prints (effects (run_pipeline demo_world demo_args)) = []"
    by (simp add: run_eval)
  have r2: "outcome (run_pipeline failing_world demo_args) = Returns True"
    by (simp add: run_eval)
  have p2: "prints (effects (run_pipeline failing_world demo_args)) =
     [(Warning, ''H5 converter output'')]"
    by (simp add: run_eval)
  have r3: "outcome (run_pipeline no_library_world demo_args) = Returns True"
    by (simp add: run_eval)
  have p3: "prints (effects (run_pipeline no_library_world demo_args)) =
     [(Warning, ''Cannot import deeplabcut, skipping h5 file generation'')]"
    by (simp add: run_eval)
  show ?thesis
    by (intro conjI) (rule f, rule h, rule i, rule g, rule r1, rule p1, rule p0, rule r2,
      rule p2, rule r3, rule p3)
qed

subsection \<open>Running the pipeline twice\<close>

lemma config_text_date:
  "config_text t s d1 pp vn bps = config_text t s d2 pp vn bps \<longleftrightarrow> d1 = d2"
  by (simp add: config_text_def)

lemma files_after_append: "files_after fs (xs @ ys) = files_after (files_after fs xs) ys"
  by (simp add: files_after_def)

lemma files_after_untouched:
  "list_all (\<lambda>e. written_path e \<noteq> Some p) es \<Longrightarrow> files_after fs es p = fs p"
proof (induction es arbitrary: fs)
  case Nil
  then show ?case by (simp add: files_after_def)
next
  case (Cons e es)
  then have "files_after (apply_effect fs e) es p = apply_effect fs e p"
    by simp
  moreover have "apply_effect fs e p = fs p"
    using Cons.prems by (cases e) auto
  ultimately show ?case by (simp add: files_after_def)
qed

lemma generate_h5_touches_no_file:
  "list_all (\<lambda>e. written_path e \<noteq> Some p) (fst (generate_h5_file c))"
  by (simp add: generate_h5_file_def h5_method2_def h5_inline_def h5_method3_def Let_def
      split: import_result.splits run_result.splits)

text \<open>
  After a run that reports success, the table file holds the table assembled from the
  state and the descriptor file holds the text rendered from it: the later stages
  write to other paths.
\<close>

lemma run_outputs_success_files:
  assumes ok: "snd (run_outputs w a self) = Returns True"
    and vf: "video_file (video_info self) = Some vf"
  shows "files_after fs (fst (run_outputs w a self))
           (csv_path w (output_dir a) vf (scorer a)) =
         Some (TableFile
           (header_rows (scorer a) (bodyparts self) @
            map (data_row (path_stem w vf) (bodyparts self) (annotations self))
              (valid_frames (annotations self) (frame_range self))))"
    and "files_after fs (fst (run_outputs w a self)) (config_path (output_dir a)) =
         Some (TextFile
           (config_text (project_name a) (scorer a) (today w)
              (path_absolute w (output_dir a)) (path_name w vf) (bodyparts self)))"
proof -
  let ?out = "output_dir a"
  let ?ex = "extract_frames w (video_file_arg a) ?out self"
  let ?csvp = "csv_path w ?out vf (scorer a)"
  let ?cfgp = "config_path ?out"
  let ?dst = "pjoin (pjoin ?out ''videos'') (path_name w (video_file_arg a))"
  let ?T = "header_rows (scorer a) (bodyparts self) @
            map (data_row (path_stem w vf) (bodyparts self) (annotations self))
              (valid_frames (annotations self) (frame_range self))"
  let ?C = "config_text (project_name a) (scorer a) (today w)
              (path_absolute w ?out) (path_name w vf) (bodyparts self)"
  from ok have e: "snd ?ex"
    by (simp add: run_outputs_def Let_def split: if_splits)
  from ok e have c: "snd (create_deeplabcut_csv w ?out (scorer a) self) = Returns True"
    by (simp add: run_outputs_def Let_def split: if_splits)
  from ok e c have g: "snd (create_deeplabcut_config w ?out (project_name a) (scorer a) self) =
      Returns True"
    by (simp add: run_outputs_def Let_def split: if_splits)
  from ok e c g have p: "snd (copy_video_to_project w (video_file_arg a) ?out)"
    by (simp add: run_outputs_def Let_def split: if_splits)
  from ok e c g p have r: "snd (run_reports w a self) = Returns True"
    by (simp add: run_outputs_def Let_def split: if_splits)
  have cs: "fst (create_deeplabcut_csv w ?out (scorer a) self) =
      [MakeDir (frames_dir w ?out vf), WriteTable ?csvp ?T]"
    using c vf by (simp add: create_deeplabcut_csv_def Let_def split: if_splits)
  have cf: "fst (create_deeplabcut_config w ?out (project_name a) (scorer a) self) =
      [WriteText ?cfgp ?C]"
    using g vf by (simp add: create_deeplabcut_config_def Let_def split: if_splits)
  have cp: "fst (copy_video_to_project w (video_file_arg a) ?out) =
      [MakeDir (pjoin ?out ''videos''), CopyFile (video_file_arg a) ?dst]"
    using p by (simp add: copy_video_to_project_def Let_def split: if_splits)
  obtain S where rp: "fst (run_reports w a self) =
      fst (generate_h5_file (converter w)) @ [WriteSummary (summary_path ?out) S]"
    using r by (auto simp add: run_reports_def create_dataset_summary_def Let_def
        split: if_splits)
  have effs: "fst (run_outputs w a self) =
      fst ?ex @
      [MakeDir (frames_dir w ?out vf), WriteTable ?csvp ?T, WriteText ?cfgp ?C,
       MakeDir (pjoin ?out ''videos''), CopyFile (video_file_arg a) ?dst] @
      (fst (generate_h5_file (converter w)) @ [WriteSummary (summary_path ?out) S])"
    using e c g p by (simp add: run_outputs_def Let_def cs cf cp rp)
  have tail_csv: "list_all (\<lambda>e. written_path e \<noteq> Some ?csvp)
      (fst (generate_h5_file (converter w)) @ [WriteSummary (summary_path ?out) S])"
    by (simp add: generate_h5_touches_no_file summary_path_def csv_path_def frames_dir_def
        pjoin_def)
  have tail_cfg: "list_all (\<lambda>e. written_path e \<noteq> Some ?cfgp)
      (fst (generate_h5_file (converter w)) @ [WriteSummary (summary_path ?out) S])"
    by (simp add: generate_h5_touches_no_file summary_path_def config_path_def pjoin_def)
  let ?A = "fst ?ex"
  let ?B = "[MakeDir (frames_dir w ?out vf), WriteTable ?csvp ?T, WriteText ?cfgp ?C,
       MakeDir (pjoin ?out ''videos''), CopyFile (video_file_arg a) ?dst]"
  let ?Tl = "fst (generate_h5_file (converter w)) @ [WriteSummary (summary_path ?out) S]"
  have split: "files_after fs (fst (run_outputs w a self)) =
      files_after (files_after (files_after fs ?A) ?B) ?Tl"
    unfolding effs by (simp only: files_after_append)
  have "files_after fs (fst (run_outputs w a self)) ?csvp =
      files_after (files_after fs ?A) ?B ?csvp"
    unfolding split by (rule files_after_untouched [OF tail_csv])
  also have "\<dots> = Some (TableFile ?T)"
    by (simp add: files_after_def csv_path_def config_path_def frames_dir_def pjoin_def)
  finally show "files_after fs (fst (run_outputs w a self)) ?csvp = Some (TableFile ?T)" .
  have "files_after fs (fst (run_outputs w a self)) ?cfgp =
      files_after (files_after fs ?A) ?B ?cfgp"
    unfolding split by (rule files_after_untouched [OF tail_cfg])
  also have "\<dots> = Some (TextFile ?C)"
    by (simp add: files_after_def csv_path_def config_path_def frames_dir_def pjoin_def)
  finally show "files_after fs (fst (run_outputs w a self)) ?cfgp = Some (TextFile ?C)" .
qed

text \<open>The state a run ends in does not depend on the clock, the converter or the file system.\<close>

lemma final_ignores_environment:
  "final (run_pipeline
            (w\<lparr>today := d, converter := c, writable := wr, copy_ok := k\<rparr>) a) =
   final (run_pipeline w a)"
  by (simp add: run_pipeline_def Let_def interactive_frame_selection_def
      split: option.splits outcome.splits)

text \<open>
  Claim C9, as stated, fails for the descriptor: it carries the date of the run.  The
  same inputs processed on 16 and on 17 September both succeed, with the same table
  and with descriptors that differ.
\<close>

theorem descriptor_differs_next_day_counterexample:
  "outcome (run_pipeline demo_world demo_args) = Returns True \<and>
   outcome (run_pipeline next_day_world demo_args) = Returns True \<and>
   tables_written (effects (run_pipeline next_day_world demo_args)) =
     tables_written (effects (run_pipeline demo_world demo_args)) \<and>
   texts_written (effects (run_pipeline demo_world demo_args)) =
     [(''out/config.yaml'',
       config_text ''BeePoseEstimation'' ''manual'' ''Sep16'' ''/work/out'' ''video.mp4''
         [''Bee'', ''Queen_center''])] \<and>
   texts_written (effects (run_pipeline next_day_world demo_args)) =
     [(''out/config.yaml'',
       config_text ''BeePoseEstimation'' ''manual'' ''Sep17'' ''/work/out'' ''video.mp4''
         [''Bee'', ''Queen_center''])] \<and>
   texts_written (effects (run_pipeline next_day_world demo_args)) \<noteq>
     texts_written (effects (run_pipeline demo_world demo_args))"
proof -
  have a: "outcome (run_pipeline demo_world demo_args) = Returns True"
    and b: "outcome (run_pipeline next_day_world demo_args) = Returns True"
    and c: "tables_written (effects (run_pipeline next_day_world demo_args)) =
     tables_written (effects (run_pipeline demo_world demo_args))"
    and d: "texts_written (effects (run_pipeline demo_world demo_args)) =
     [(''out/config.yaml'',
       config_text ''BeePoseEstimation'' ''manual'' ''Sep16'' ''/work/out'' ''video.mp4''
         [''Bee'', ''Queen_center''])]"
    and e: "texts_written (effects (run_pipeline next_day_world demo_args)) =
     [(''out/config.yaml'',
       config_text ''BeePoseEstimation'' ''manual'' ''Sep17'' ''/work/out'' ''video.mp4''
         [''Bee'', ''Queen_center''])]"
    by (simp_all add: run_eval)
  have f: "texts_written (effects (run_pipeline next_day_world demo_args)) \<noteq>
     texts_written (effects (run_pipeline demo_world demo_args))"
    unfolding d e by (simp add: config_text_date)
  show ?thesis by (intro conjI) (rule a, rule b, rule c, rule d, rule e, rule f)
qed

text \<open>
  Claim C9, amended.  Running the pipeline twice on the same annotation export, video,
  answers at the prompt, output directory, project name and scorer, both runs
  reporting success, leaves the annotation table with the content the first run gave
  it; the descriptor has the same content after the second run if and only if the two
  runs read the same date from the clock.  The clock, the converter and the state of
  the file system may differ between the runs.
\<close>

theorem rerun_keeps_table_and_dated_descriptor:
  fixes w1 :: "'img world"
  assumes "w2 = w1\<lparr>today := d, converter := c, writable := wr, copy_ok := k\<rparr>"
    and "outcome (run_pipeline w1 a) = Returns True"
    and "outcome (run_pipeline w2 a) = Returns True"
  shows "(\<exists>t. files_after fs (effects (run_pipeline w1 a))
              (csv_path w1 (output_dir a) (video_file_arg a) (scorer a)) = Some (TableFile t) \<and>
            files_after (files_after fs (effects (run_pipeline w1 a))) (effects (run_pipeline w2 a))
              (csv_path w1 (output_dir a) (video_file_arg a) (scorer a)) = Some (TableFile t)) \<and>
         (files_after (files_after fs (effects (run_pipeline w1 a))) (effects (run_pipeline w2 a))
            (config_path (output_dir a)) =
          files_after fs (effects (run_pipeline w1 a)) (config_path (output_dir a))
          \<longleftrightarrow> d = today w1)"
proof (cases rule: run_pipeline_cases [of w1 a])
  case stopped
  then show ?thesis using assms(2) by simp
next
  case first_run: (outputs doc n f wd h frames self1)
  show ?thesis
  proof (cases rule: run_pipeline_cases [of w2 a])
    case stopped
    then show ?thesis using assms(3) by simp
  next
    case second_run: (outputs doc2 n2 f2 wd2 h2 frames2 self2)
    let ?vf = "video_file_arg a"
    have same: "self2 = self1"
      using first_run(3) second_run(3) final_ignores_environment [where w = w1 and d = d and c = c and wr = wr and k = k and a = a] assms(1)
      by simp
    have ok1: "snd (run_outputs w1 a self1) = Returns True"
      using assms(2) first_run(5) by simp
    have ok2: "snd (run_outputs w2 a self1) = Returns True"
      using assms(3) second_run(5) same by simp
    have paths:
      "csv_path w2 (output_dir a) ?vf (scorer a) = csv_path w1 (output_dir a) ?vf (scorer a)"
      "path_stem w2 = path_stem w1" "path_name w2 = path_name w1"
      "path_absolute w2 = path_absolute w1" "today w2 = d"
      using assms(1) by (simp_all add: csv_path_def frames_dir_def)
    note first = run_outputs_success_files [OF ok1 first_run(6), of fs]
    note second = run_outputs_success_files [OF ok2 first_run(6),
        of "files_after fs (fst (run_outputs w1 a self1))", unfolded paths]
    show ?thesis
      unfolding first_run(4) second_run(4) same first second
      by (simp add: config_text_date)
  qed
qed

theorem rerun_keeps_table_and_dated_descriptor_witness:
  "outcome (run_pipeline demo_world demo_args) = Returns True \<and>
   outcome (run_pipeline
      (demo_world\<lparr>today := ''Sep16'', converter := failing_converter,
         writable := (\<lambda>p. True), copy_ok := True\<rparr>) demo_args) = Returns True \<and>
   files_after (files_after Map.empty (effects (run_pipeline demo_world demo_args)))
     (effects (run_pipeline
        (demo_world\<lparr>today := ''Sep16'', converter := failing_converter,
           writable := (\<lambda>p. True), copy_ok := True\<rparr>) demo_args))
     (config_path (output_dir demo_args)) =
   files_after Map.empty (effects (run_pipeline demo_world demo_args))
     (config_path (output_dir demo_args))"
proof -
  let ?w2 = "demo_world\<lparr>today := ''Sep16'', converter := failing_converter,
         writable := (\<lambda>p. True), copy_ok := True\<rparr>"
  have h1: "outcome (run_pipeline demo_world demo_args) = Returns True"
    by (simp add: run_eval)
  have h2: "outcome (run_pipeline ?w2 demo_args) = Returns True"
    by (simp add: run_eval)
  have day: "''Sep16'' = today demo_world" by (simp add: demo_world_def)
  note t = rerun_keeps_table_and_dated_descriptor
    [where ?w1.0 = demo_world and ?w2.0 = ?w2 and d = "''Sep16''" and c = failing_converter
       and wr = "\<lambda>p. True" and k = True and a = demo_args and fs = Map.empty,
     OF refl h1 h2]
  from t day have same: "files_after (files_after Map.empty (effects (run_pipeline demo_world demo_args)))
     (effects (run_pipeline ?w2 demo_args)) (config_path (output_dir demo_args)) =
   files_after Map.empty (effects (run_pipeline demo_world demo_args))
     (config_path (output_dir demo_args))"
    by (elim conjE) simp
  show ?thesis by (intro conjI) (rule h1, rule h2, rule same)
qed

end
